theory Spec2Isabelle
  imports
    Main
    "HOL-Library.Char_ord"
    "HOL-Library.List_Lexorder"
    "HOL-Library.Product_Lexorder"
    "HOL-Library.Sublist"
begin

section \<open>Python values, exceptions and string primitives\<close>

text \<open>
  The events of \<^verbatim>\<open>AR_Timeline_Creator.py\<close> are Python dictionaries, built by the form or
  installed verbatim from an uploaded JSON document. A value is therefore modelled as
  what \<^verbatim>\<open>json.load\<close> can produce: \<^verbatim>\<open>None\<close>, a boolean, an integer, a string, a list or a
  dictionary with string keys (an association list in insertion order, looked up with
  \<open>map_of\<close>). JSON numbers with a fraction are outside the model. Strings are lists
  of 8-bit characters and stand for text whose code points are below 256 (Latin-1):
  whitespace, digits, letter case and printability are those of these code points.

  An exception raised by the Python code is the left injection of a sum.
\<close>

datatype pyerr = AttributeError | TypeError | KeyError | ValueError | Unmodelled

datatype pyval =
    PNone
  | PBool bool
  | PInt int
  | PStr string
  | PList "pyval list"
  | PDict "(string \<times> pyval) list"

definition bind_res :: "pyerr + 'a \<Rightarrow> ('a \<Rightarrow> pyerr + 'b) \<Rightarrow> pyerr + 'b" where
  "bind_res m f = (case m of Inl e \<Rightarrow> Inl e | Inr v \<Rightarrow> f v)"

text \<open>Truth value of an object, as \<^verbatim>\<open>if x:\<close> and \<^verbatim>\<open>not x\<close> test it.\<close>

fun truthy :: "pyval \<Rightarrow> bool" where
  "truthy PNone = False"
| "truthy (PBool b) = b"
| "truthy (PInt i) = (i \<noteq> 0)"
| "truthy (PStr s) = (s \<noteq> [])"
| "truthy (PList xs) = (xs \<noteq> [])"
| "truthy (PDict kvs) = (kvs \<noteq> [])"

text \<open>
  \<^verbatim>\<open>str.isspace\<close>: tab to carriage return, the four separators 28 to 31, space, next
  line (133) and no-break space (160).
\<close>

definition py_isspace :: "char \<Rightarrow> bool" where
  "py_isspace c =
     (let n = (of_char c :: nat)
      in (9 \<le> n \<and> n \<le> 13) \<or> (28 \<le> n \<and> n \<le> 32) \<or> n = 133 \<or> n = 160)"

definition py_strip :: "string \<Rightarrow> string" where
  "py_strip s = rev (dropWhile py_isspace (rev (dropWhile py_isspace s)))"

text \<open>
  \<^verbatim>\<open>str.lower\<close>: the capital letters are A to Z and the code points 192 to 222 without the
  multiplication sign (215); the small letter is 32 further.
\<close>

definition lower_char :: "char \<Rightarrow> char" where
  "lower_char c =
     (let n = (of_char c :: nat)
      in if (65 \<le> n \<and> n \<le> 90) \<or> (192 \<le> n \<and> n \<le> 222 \<and> n \<noteq> 215) then char_of (n + 32) else c)"

definition py_lower :: "string \<Rightarrow> string" where
  "py_lower s = map lower_char s"

text \<open>\<^verbatim>\<open>s.split(sep)\<close> for a one-character separator: one more part than separators.\<close>

fun py_split :: "char \<Rightarrow> string \<Rightarrow> string list" where
  "py_split sep [] = [[]]"
| "py_split sep (c # cs) =
     (if c = sep then [] # py_split sep cs
      else (case py_split sep cs of
              [] \<Rightarrow> [[c]]
            | p # ps \<Rightarrow> (c # p) # ps))"

fun py_join :: "string \<Rightarrow> string list \<Rightarrow> string" where
  "py_join sep [] = []"
| "py_join sep [x] = x"
| "py_join sep (x # y # ys) = x @ sep @ py_join sep (y # ys)"

fun is_prefix :: "string \<Rightarrow> string \<Rightarrow> bool" where
  "is_prefix [] ys = True"
| "is_prefix (x # xs) [] = False"
| "is_prefix (x # xs) (y # ys) = (x = y \<and> is_prefix xs ys)"

text \<open>\<^verbatim>\<open>needle in hay\<close> on strings: \<open>needle\<close> occurs as a contiguous block.\<close>

fun py_in_str :: "string \<Rightarrow> string \<Rightarrow> bool" where
  "py_in_str needle [] = (needle = [])"
| "py_in_str needle (c # cs) = (is_prefix needle (c # cs) \<or> py_in_str needle cs)"

text \<open>Methods called on a value that may not be a string or a dictionary.\<close>

fun py_strip_val :: "pyval \<Rightarrow> pyerr + string" where
  "py_strip_val (PStr s) = Inr (py_strip s)"
| "py_strip_val _ = Inl AttributeError"

fun py_lower_val :: "pyval \<Rightarrow> pyerr + string" where
  "py_lower_val (PStr s) = Inr (py_lower s)"
| "py_lower_val _ = Inl AttributeError"

text \<open>\<^verbatim>\<open>ev.get(k, default)\<close>: only a dictionary has the method.\<close>

fun py_get :: "pyval \<Rightarrow> string \<Rightarrow> pyval \<Rightarrow> pyerr + pyval" where
  "py_get (PDict kvs) k dflt = Inr (case map_of kvs k of Some v \<Rightarrow> v | None \<Rightarrow> dflt)"
| "py_get _ k dflt = Inl AttributeError"

text \<open>\<^verbatim>\<open>ev[k]\<close>: \<^verbatim>\<open>KeyError\<close> on a dictionary without the key, \<^verbatim>\<open>TypeError\<close> on any other
  value of the model indexed by a string.\<close>

fun py_index :: "pyval \<Rightarrow> string \<Rightarrow> pyerr + pyval" where
  "py_index (PDict kvs) k = (case map_of kvs k of Some v \<Rightarrow> Inr v | None \<Rightarrow> Inl KeyError)"
| "py_index _ k = Inl TypeError"

text \<open>\<^verbatim>\<open>sep.join(xs)\<close>: \<^verbatim>\<open>TypeError\<close> unless every item is a string.\<close>

fun the_strs :: "pyval list \<Rightarrow> pyerr + string list" where
  "the_strs [] = Inr []"
| "the_strs (PStr s # vs) = bind_res (the_strs vs) (\<lambda>ss. Inr (s # ss))"
| "the_strs (_ # vs) = Inl TypeError"

definition py_join_val :: "string \<Rightarrow> pyval list \<Rightarrow> pyerr + string" where
  "py_join_val sep vs = bind_res (the_strs vs) (\<lambda>ss. Inr (py_join sep ss))"

subsection \<open>\<^verbatim>\<open>str(x)\<close>\<close>

definition digit_char :: "nat \<Rightarrow> char" where
  "digit_char n = char_of (48 + n)"

fun dec_of_nat :: "nat \<Rightarrow> string" where
  "dec_of_nat n = (if n < 10 then [digit_char n] else dec_of_nat (n div 10) @ [digit_char (n mod 10)])"

definition hex_char :: "nat \<Rightarrow> char" where
  "hex_char n = (if n < 10 then char_of (48 + n) else char_of (87 + n))"

definition repr_char :: "char \<Rightarrow> char \<Rightarrow> string" where
  "repr_char q c =
     (let n = (of_char c :: nat) in
      if c = q \<or> c = CHR 0x5C then [CHR 0x5C, c]
      else if n = 9 then [CHR 0x5C, CHR ''t'']
      else if n = 10 then [CHR 0x5C, CHR ''n'']
      else if n = 13 then [CHR 0x5C, CHR ''r'']
      else if n < 32 \<or> (127 \<le> n \<and> n \<le> 160) \<or> n = 173
        then [CHR 0x5C, CHR ''x'', hex_char (n div 16), hex_char (n mod 16)]
      else [c])"

text \<open>\<^verbatim>\<open>repr\<close> of a string: single quotes, unless the text has a single and no double quote.\<close>

definition repr_str :: "string \<Rightarrow> string" where
  "repr_str s =
     (let q = (if CHR 0x27 \<in> set s \<and> CHR 0x22 \<notin> set s then CHR 0x22 else CHR 0x27)
      in [q] @ concat (map (repr_char q) s) @ [q])"

fun py_repr :: "pyval \<Rightarrow> string" where
  "py_repr PNone = ''None''"
| "py_repr (PBool b) = (if b then ''True'' else ''False'')"
| "py_repr (PInt i) = (if i < 0 then CHR ''-'' # dec_of_nat (nat (- i)) else dec_of_nat (nat i))"
| "py_repr (PStr s) = repr_str s"
| "py_repr (PList xs) = ''['' @ py_join '', '' (map py_repr xs) @ '']''"
| "py_repr (PDict kvs) =
     ''{'' @ py_join '', '' (map (\<lambda>kv. repr_str (fst kv) @ '': '' @ py_repr (snd kv)) kvs) @ ''}''"

definition py_str :: "pyval \<Rightarrow> string" where
  "py_str v = (case v of PStr s \<Rightarrow> s | _ \<Rightarrow> py_repr v)"

section \<open>Utilities of the application\<close>

subsection \<open>\<^verbatim>\<open>datetime.strptime\<close> for the three formats\<close>

text \<open>
  A date is (year, month, day); the lexicographic order on the triple is the order of
  \<^verbatim>\<open>datetime.date\<close>.

  \<^verbatim>\<open>strptime\<close> compiles the format to a regular expression, takes its first match at the
  start of the text (alternatives in their written order, with backtracking), rejects
  the text when the match leaves characters over, and then builds the date, which
  rejects year 0 and a day the month does not have. The directives are
  \<^verbatim>\<open>%Y = \d\d\d\d\<close>, \<^verbatim>\<open>%m = 1[0-2]|0[1-9]|[1-9]\<close> and
  \<^verbatim>\<open>%d = 3[0-1]|[1-2]\d|0[1-9]|[1-9]| [1-9]\<close>. Each matcher below returns the
  matches of its directive in that order, each with the text left over.
\<close>

type_synonym date = "nat \<times> nat \<times> nat"

datatype fmt = FmtYMD | FmtYM | FmtY

definition digit_val :: "char \<Rightarrow> nat option" where
  "digit_val c = (let n = (of_char c :: nat) in if 48 \<le> n \<and> n \<le> 57 then Some (n - 48) else None)"

fun re_Y :: "string \<Rightarrow> (nat \<times> string) list" where
  "re_Y (a # b # c # d # rest) =
     (case (digit_val a, digit_val b, digit_val c, digit_val d) of
        (Some w, Some x, Some y, Some z) \<Rightarrow> [(1000 * w + 100 * x + 10 * y + z, rest)]
      | _ \<Rightarrow> [])"
| "re_Y _ = []"

fun alt_two :: "(nat \<Rightarrow> bool) \<Rightarrow> (nat \<Rightarrow> bool) \<Rightarrow> string \<Rightarrow> (nat \<times> string) list" where
  "alt_two P Q (a # b # rest) =
     (case (digit_val a, digit_val b) of
        (Some x, Some y) \<Rightarrow> if P x \<and> Q y then [(10 * x + y, rest)] else []
      | _ \<Rightarrow> [])"
| "alt_two P Q _ = []"

fun alt_one :: "(nat \<Rightarrow> bool) \<Rightarrow> string \<Rightarrow> (nat \<times> string) list" where
  "alt_one P (a # rest) =
     (case digit_val a of Some x \<Rightarrow> if P x then [(x, rest)] else [] | None \<Rightarrow> [])"
| "alt_one P [] = []"

fun re_lit :: "char \<Rightarrow> string \<Rightarrow> string list" where
  "re_lit c (x # rest) = (if x = c then [rest] else [])"
| "re_lit c [] = []"

definition re_m :: "string \<Rightarrow> (nat \<times> string) list" where
  "re_m s = alt_two (\<lambda>x. x = 1) (\<lambda>y. y \<le> 2) s
          @ alt_two (\<lambda>x. x = 0) (\<lambda>y. 1 \<le> y) s
          @ alt_one (\<lambda>x. 1 \<le> x) s"

definition re_d :: "string \<Rightarrow> (nat \<times> string) list" where
  "re_d s = alt_two (\<lambda>x. x = 3) (\<lambda>y. y \<le> 1) s
          @ alt_two (\<lambda>x. 1 \<le> x \<and> x \<le> 2) (\<lambda>y. True) s
          @ alt_two (\<lambda>x. x = 0) (\<lambda>y. 1 \<le> y) s
          @ alt_one (\<lambda>x. 1 \<le> x) s
          @ concat (map (alt_one (\<lambda>x. 1 \<le> x)) (re_lit CHR '' '' s))"

fun re_fmt :: "fmt \<Rightarrow> string \<Rightarrow> (date \<times> string) list" where
  "re_fmt FmtYMD s =
     [((y, m, d), r5).
        (y, r1) \<leftarrow> re_Y s, r2 \<leftarrow> re_lit CHR ''-'' r1, (m, r3) \<leftarrow> re_m r2,
        r4 \<leftarrow> re_lit CHR ''-'' r3, (d, r5) \<leftarrow> re_d r4]"
| "re_fmt FmtYM s =
     [((y, m, 1), r3).
        (y, r1) \<leftarrow> re_Y s, r2 \<leftarrow> re_lit CHR ''-'' r1, (m, r3) \<leftarrow> re_m r2]"
| "re_fmt FmtY s = [((y, 1, 1), r1). (y, r1) \<leftarrow> re_Y s]"

definition is_leap :: "nat \<Rightarrow> bool" where
  "is_leap y = (y mod 4 = 0 \<and> (y mod 100 \<noteq> 0 \<or> y mod 400 = 0))"

definition days_in_month :: "nat \<Rightarrow> nat \<Rightarrow> nat" where
  "days_in_month y m =
     (if m = 2 then (if is_leap y then 29 else 28)
      else if m = 4 \<or> m = 6 \<or> m = 9 \<or> m = 11 then 30 else 31)"

definition valid_date :: "date \<Rightarrow> bool" where
  "valid_date dt = (case dt of (y, m, d) \<Rightarrow>
     1 \<le> y \<and> y \<le> 9999 \<and> 1 \<le> m \<and> m \<le> 12 \<and> 1 \<le> d \<and> d \<le> days_in_month y m)"

definition strptime :: "string \<Rightarrow> fmt \<Rightarrow> pyerr + date" where
  "strptime s f =
     (case re_fmt f s of
        [] \<Rightarrow> Inl ValueError
      | (dt, rest) # _ \<Rightarrow>
          if rest \<noteq> [] then Inl ValueError
          else if valid_date dt then Inr dt
          else Inl ValueError)"

subsection \<open>\<^verbatim>\<open>safe_parse_date\<close>\<close>

definition fmts :: "fmt list" where
  "fmts = [FmtYMD, FmtYM, FmtY]"

text \<open>The loop over the formats: an exception of \<^verbatim>\<open>strptime\<close> moves on to the next one.\<close>

fun try_fmts :: "fmt list \<Rightarrow> string \<Rightarrow> date option" where
  "try_fmts [] s = None"
| "try_fmts (f # fs) s = (case strptime s f of Inr dt \<Rightarrow> Some dt | Inl e \<Rightarrow> try_fmts fs s)"

fun safe_parse_date :: "pyval \<Rightarrow> pyerr + date option" where
  "safe_parse_date v =
     (if \<not> truthy v then Inr None
      else (case v of
              PStr s \<Rightarrow> Inr (try_fmts fmts (py_strip s))
            | _ \<Rightarrow> Inl AttributeError))"

subsection \<open>\<^verbatim>\<open>ensure_list\<close>\<close>

text \<open>The loop that keeps the first spelling of every lower-cased part.\<close>

fun dedupe_loop :: "string list \<Rightarrow> string set \<Rightarrow> string list \<Rightarrow> string list" where
  "dedupe_loop [] seen out = out"
| "dedupe_loop (p # ps) seen out =
     (if py_lower p \<notin> seen then dedupe_loop ps (insert (py_lower p) seen) (out @ [p])
      else dedupe_loop ps seen out)"

definition comma_parts :: "string \<Rightarrow> string list" where
  "comma_parts s = [py_strip p. p \<leftarrow> py_split CHR '','' s, py_strip p \<noteq> []]"

fun ensure_list :: "pyval \<Rightarrow> pyval list" where
  "ensure_list PNone = []"
| "ensure_list (PList xs) = xs"
| "ensure_list v = map PStr (dedupe_loop (comma_parts (py_str v)) {} [])"

subsection \<open>\<^verbatim>\<open>new_event_template\<close>\<close>

text \<open>The fresh \<^verbatim>\<open>uuid4\<close> string is an argument.\<close>

definition new_event_template :: "string \<Rightarrow> (string \<times> pyval) list" where
  "new_event_template new_id =
     [(''id'', PStr new_id),
      (''title'', PStr []),
      (''date_text'', PStr []),
      (''start_date'', PStr []),
      (''end_date'', PStr []),
      (''era'', PStr []),
      (''story'', PStr []),
      (''characters'', PList []),
      (''categories'', PList []),
      (''notes'', PStr []),
      (''sort_index'', PInt 0)]"

text \<open>\<^verbatim>\<open>d[k] = v\<close>: the value of an existing key is replaced in place, a new key goes last.\<close>

fun dict_set :: "(string \<times> pyval) list \<Rightarrow> string \<Rightarrow> pyval \<Rightarrow> (string \<times> pyval) list" where
  "dict_set [] k v = [(k, v)]"
| "dict_set (p # ps) k v = (if fst p = k then (k, v) # ps else p # dict_set ps k v)"

fun dict_update :: "(string \<times> pyval) list \<Rightarrow> (string \<times> pyval) list \<Rightarrow> (string \<times> pyval) list" where
  "dict_update d [] = d"
| "dict_update d ((k, v) # kvs) = dict_update (dict_set d k v) kvs"

subsection \<open>Comprehensions whose body may raise\<close>

fun map_res :: "('a \<Rightarrow> pyerr + 'b) \<Rightarrow> 'a list \<Rightarrow> pyerr + 'b list" where
  "map_res f [] = Inr []"
| "map_res f (x # xs) = bind_res (f x) (\<lambda>y. bind_res (map_res f xs) (\<lambda>ys. Inr (y # ys)))"

fun filter_res :: "('a \<Rightarrow> pyerr + bool) \<Rightarrow> 'a list \<Rightarrow> pyerr + 'a list" where
  "filter_res p [] = Inr []"
| "filter_res p (x # xs) =
     bind_res (p x) (\<lambda>b. bind_res (filter_res p xs) (\<lambda>ys. Inr (if b then x # ys else ys)))"

subsection \<open>\<^verbatim>\<open>filtered_events\<close>\<close>

text \<open>
  The five tests of \<^verbatim>\<open>match\<close>, in the order of the source; each returns whether the event
  passes it. The criteria come from the select boxes and the search box: strings.
\<close>

definition check_text :: "string \<Rightarrow> string \<Rightarrow> pyval \<Rightarrow> pyerr + bool" where
  "check_text crit field ev =
     (if crit = [] then Inr True
      else bind_res (py_get ev field (PStr [])) (\<lambda>v.
           bind_res (py_strip_val v) (\<lambda>s. Inr (s = crit))))"

definition check_member :: "string \<Rightarrow> string \<Rightarrow> pyval \<Rightarrow> pyerr + bool" where
  "check_member crit field ev =
     (if crit = [] then Inr True
      else bind_res (py_get ev field (PList [])) (\<lambda>v.
           bind_res (map_res py_lower_val (ensure_list v)) (\<lambda>ls.
           Inr (py_lower crit \<in> set ls))))"

definition blob :: "pyval \<Rightarrow> pyerr + string" where
  "blob ev =
     bind_res (py_get ev ''title'' (PStr [])) (\<lambda>t.
     bind_res (py_get ev ''date_text'' (PStr [])) (\<lambda>dt.
     bind_res (py_get ev ''story'' (PStr [])) (\<lambda>st.
     bind_res (py_get ev ''era'' (PStr [])) (\<lambda>er.
     bind_res (py_get ev ''characters'' (PList [])) (\<lambda>chs.
     bind_res (py_join_val '', '' (ensure_list chs)) (\<lambda>cj.
     bind_res (py_get ev ''categories'' (PList [])) (\<lambda>cats.
     bind_res (py_join_val '', '' (ensure_list cats)) (\<lambda>gj.
     bind_res (py_get ev ''notes'' (PStr [])) (\<lambda>n.
     bind_res (py_join_val '' '' [t, dt, st, er, PStr cj, PStr gj, n]) (\<lambda>b.
     Inr (py_lower b)))))))))))"

definition check_keyword :: "string \<Rightarrow> pyval \<Rightarrow> pyerr + bool" where
  "check_keyword keyword ev =
     (if keyword = [] then Inr True
      else bind_res (blob ev) (\<lambda>b. Inr (py_in_str (py_lower keyword) b)))"

definition match :: "string \<Rightarrow> string \<Rightarrow> string \<Rightarrow> string \<Rightarrow> string \<Rightarrow> pyval \<Rightarrow> pyerr + bool" where
  "match story era character category keyword ev =
     bind_res (check_text story ''story'' ev) (\<lambda>ok1. if \<not> ok1 then Inr False else
     bind_res (check_text era ''era'' ev) (\<lambda>ok2. if \<not> ok2 then Inr False else
     bind_res (check_member character ''characters'' ev) (\<lambda>ok3. if \<not> ok3 then Inr False else
     bind_res (check_member category ''categories'' ev) (\<lambda>ok4. if \<not> ok4 then Inr False else
     check_keyword keyword ev))))"

definition filtered_events ::
  "pyval list \<Rightarrow> string \<Rightarrow> string \<Rightarrow> string \<Rightarrow> string \<Rightarrow> string \<Rightarrow> pyerr + pyval list" where
  "filtered_events all_events story era character category keyword =
     filter_res (match story era character category keyword) all_events"

subsection \<open>\<^verbatim>\<open>sorted_events\<close>\<close>

text \<open>
  The key is a tuple of a date, the sort index and the lower-cased title; tuples, dates
  and strings compare lexicographically, and a boolean sort index compares as the
  integer 0 or 1. What Python does with a sort index of another type depends on which
  comparisons the sort makes (none at all for a single event, an exception between a
  string and a number); the model stops there with \<open>Unmodelled\<close>.
\<close>

type_synonym sort_key = "date \<times> int \<times> string"

definition sentinel :: date where
  "sentinel = (9999, 12, 31)"

definition key :: "pyval \<Rightarrow> pyerr + sort_key" where
  "key e =
     bind_res (py_get e ''start_date'' (PStr [])) (\<lambda>sd.
     bind_res (safe_parse_date sd) (\<lambda>d.
     let primary = (case d of Some dt \<Rightarrow> dt | None \<Rightarrow> sentinel) in
     bind_res (py_get e ''sort_index'' (PInt 0)) (\<lambda>si.
     bind_res (py_get e ''title'' (PStr [])) (\<lambda>t.
     bind_res (py_lower_val t) (\<lambda>tl.
     (case si of
        PInt i \<Rightarrow> Inr (primary, i, tl)
      | PBool b \<Rightarrow> Inr (primary, if b then 1 else 0, tl)
      | _ \<Rightarrow> Inl Unmodelled))))))"

text \<open>\<^verbatim>\<open>sorted(evts, key=key)\<close> computes every key first and sorts stably.\<close>

definition sorted_events :: "pyval list \<Rightarrow> pyerr + pyval list" where
  "sorted_events evts =
     bind_res (map_res key evts) (\<lambda>ks. Inr (map snd (sort_key fst (zip ks evts))))"

section \<open>Session state and the handlers of the page\<close>

text \<open>
  The session state holds the list of events and the edit id, which is \<^verbatim>\<open>None\<close> or the
  \<^verbatim>\<open>"id"\<close> value of the event whose Edit button was pressed.
\<close>

record store =
  events :: "pyval list"
  edit_id :: pyval

datatype notice = Loaded | InvalidFormat | LoadFailed | TitleRequired | Updated | Added | Deleted

subsection \<open>Equality of values\<close>

text \<open>
  \<^verbatim>\<open>x == y\<close>. \<^verbatim>\<open>None\<close>, booleans, integers and strings compare by value, with
  \<^verbatim>\<open>True == 1\<close> and \<^verbatim>\<open>False == 0\<close>; none of them equals a list or a dictionary, and a
  list never equals a dictionary. Two lists, or two dictionaries, compare item by item
  with \<^verbatim>\<open>==\<close> again; the model stops there with \<open>Unmodelled\<close>.
\<close>

fun py_eq :: "pyval \<Rightarrow> pyval \<Rightarrow> pyerr + bool" where
  "py_eq (PList xs) (PList ys) = Inl Unmodelled"
| "py_eq (PDict a) (PDict b) = Inl Unmodelled"
| "py_eq (PBool a) (PInt i) = Inr (i = (if a then 1 else 0))"
| "py_eq (PInt i) (PBool a) = Inr (i = (if a then 1 else 0))"
| "py_eq a b = Inr (a = b)"

subsection \<open>Export and import of the JSON document\<close>


definition import_json :: "('b \<Rightarrow> 'x + pyval) \<Rightarrow> 'b option \<Rightarrow> store \<Rightarrow> store \<times> notice option" where
  "import_json json_load uploaded st =
     (case uploaded of
        None \<Rightarrow> (st, None)
      | Some f \<Rightarrow>
          (case json_load f of
             Inl e \<Rightarrow> (st, Some LoadFailed)
           | Inr data \<Rightarrow>
               (case data of
                  PList xs \<Rightarrow> (st\<lparr>events := xs\<rparr>, Some Loaded)
                | _ \<Rightarrow> (st, Some InvalidFormat))))"

subsection \<open>The event being edited\<close>

text \<open>\<^verbatim>\<open>next((e for e in events if e["id"] == edit_id), None)\<close>, under \<^verbatim>\<open>if edit_id:\<close>.\<close>

fun find_by_id :: "pyval list \<Rightarrow> pyval \<Rightarrow> pyerr + pyval option" where
  "find_by_id [] i = Inr None"
| "find_by_id (e # es) i =
     bind_res (py_index e ''id'') (\<lambda>v.
     bind_res (py_eq v i) (\<lambda>b. if b then Inr (Some e) else find_by_id es i))"

definition editing_event :: "store \<Rightarrow> pyerr + pyval option" where
  "editing_event st =
     (if truthy (edit_id st) then find_by_id (events st) (edit_id st) else Inr None)"

subsection \<open>Save, delete and edit\<close>

text \<open>
  The values of the widgets when a button is pressed: text inputs give strings, the
  number input gives an integer. The widgets themselves, and the values they are
  prefilled with from the event being edited, are not part of the model.
\<close>

record form =
  f_title :: string
  f_story :: string
  f_era :: string
  f_start_date :: string
  f_end_date :: string
  f_sort_index :: int
  f_date_text :: string
  f_characters_text :: string
  f_categories_text :: string
  f_notes :: string

definition form_fields :: "form \<Rightarrow> (string \<times> pyval) list" where
  "form_fields f =
     [(''title'', PStr (py_strip (f_title f))),
      (''date_text'', PStr (py_strip (f_date_text f))),
      (''start_date'', PStr (py_strip (f_start_date f))),
      (''end_date'', PStr (py_strip (f_end_date f))),
      (''era'', PStr (py_strip (f_era f))),
      (''story'', PStr (py_strip (f_story f))),
      (''characters'', PList (ensure_list (PStr (f_characters_text f)))),
      (''categories'', PList (ensure_list (PStr (f_categories_text f)))),
      (''notes'', PStr (py_strip (f_notes f))),
      (''sort_index'', PInt (f_sort_index f))]"

text \<open>\<^verbatim>\<open>if editing_event:\<close> holds for an event that is not an empty dictionary.\<close>

definition is_editing :: "pyval option \<Rightarrow> bool" where
  "is_editing editing = (case editing of None \<Rightarrow> False | Some ee \<Rightarrow> truthy ee)"

text \<open>\<^verbatim>\<open>[payload if e["id"] == ee["id"] else e for e in events]\<close>.\<close>

definition replace_by_id :: "pyval \<Rightarrow> pyval \<Rightarrow> pyval list \<Rightarrow> pyerr + pyval list" where
  "replace_by_id ee payload evs =
     map_res (\<lambda>e. bind_res (py_index e ''id'') (\<lambda>i.
                   bind_res (py_index ee ''id'') (\<lambda>x.
                   bind_res (py_eq i x) (\<lambda>b. Inr (if b then payload else e))))) evs"

text \<open>The handler of the Save button; the fresh \<^verbatim>\<open>uuid4\<close> string of the template is an argument.\<close>

definition save_event :: "form \<Rightarrow> string \<Rightarrow> pyval option \<Rightarrow> store \<Rightarrow> pyerr + store \<times> notice" where
  "save_event f new_id editing st =
     (if py_strip (f_title f) = [] then Inr (st, TitleRequired)
      else
        (case (if is_editing editing then editing else None) of
           Some ee \<Rightarrow>
             bind_res (py_index ee ''id'') (\<lambda>eid.
             let payload = dict_update (dict_set (new_event_template new_id) ''id'' eid) (form_fields f) in
             bind_res (replace_by_id ee (PDict payload) (events st)) (\<lambda>evs.
             Inr (st\<lparr>events := evs, edit_id := PNone\<rparr>, Updated)))
         | None \<Rightarrow>
             (let payload = dict_update (new_event_template new_id) (form_fields f) in
              Inr (st\<lparr>events := events st @ [PDict payload]\<rparr>, Added))))"

text \<open>\<^verbatim>\<open>[e for e in events if e["id"] != ref["id"]]\<close>, used by both delete buttons.\<close>

definition remove_by_id :: "pyval \<Rightarrow> pyval list \<Rightarrow> pyerr + pyval list" where
  "remove_by_id ref evs =
     filter_res (\<lambda>e. bind_res (py_index e ''id'') (\<lambda>i.
                      bind_res (py_index ref ''id'') (\<lambda>x.
                      bind_res (py_eq i x) (\<lambda>b. Inr (\<not> b))))) evs"

definition delete_this_event :: "pyval option \<Rightarrow> store \<Rightarrow> pyerr + store \<times> notice option" where
  "delete_this_event editing st =
     (case (if is_editing editing then editing else None) of
        None \<Rightarrow> Inr (st, None)
      | Some ee \<Rightarrow>
          bind_res (remove_by_id ee (events st)) (\<lambda>evs.
          Inr (st\<lparr>events := evs, edit_id := PNone\<rparr>, Some Deleted)))"

text \<open>The buttons of an event card, and the Reset button of the form.\<close>

definition card_delete :: "pyval \<Rightarrow> store \<Rightarrow> pyerr + store" where
  "card_delete ev st = bind_res (remove_by_id ev (events st)) (\<lambda>evs. Inr (st\<lparr>events := evs\<rparr>))"

definition card_edit :: "pyval \<Rightarrow> store \<Rightarrow> pyerr + store" where
  "card_edit ev st = bind_res (py_index ev ''id'') (\<lambda>i. Inr (st\<lparr>edit_id := i\<rparr>))"

definition reset_form :: "store \<Rightarrow> store" where
  "reset_form st = st\<lparr>edit_id := PNone\<rparr>"

subsection \<open>One run of the script per button\<close>

text \<open>
  The script looks up the event being edited from the session state and then runs the
  handler of the button that was pressed.
\<close>

definition save_click :: "form \<Rightarrow> string \<Rightarrow> store \<Rightarrow> pyerr + store \<times> notice" where
  "save_click f new_id st = bind_res (editing_event st) (\<lambda>ed. save_event f new_id ed st)"

definition delete_click :: "store \<Rightarrow> pyerr + store \<times> notice option" where
  "delete_click st = bind_res (editing_event st) (\<lambda>ed. delete_this_event ed st)"

datatype 'b action =
    Save form string
  | DeleteThis
  | CardDelete pyval
  | CardEdit pyval
  | Reset
  | Upload 'b

fun step :: "('b \<Rightarrow> 'x + pyval) \<Rightarrow> 'b action \<Rightarrow> store \<Rightarrow> pyerr + store" where
  "step json_load (Save f new_id) st = bind_res (save_click f new_id st) (\<lambda>r. Inr (fst r))"
| "step json_load DeleteThis st = bind_res (delete_click st) (\<lambda>r. Inr (fst r))"
| "step json_load (CardDelete ev) st = card_delete ev st"
| "step json_load (CardEdit ev) st = card_edit ev st"
| "step json_load Reset st = Inr (reset_form st)"
| "step json_load (Upload f) st = Inr (fst (import_json json_load (Some f) st))"

fun run :: "('b \<Rightarrow> 'x + pyval) \<Rightarrow> 'b action list \<Rightarrow> store \<Rightarrow> pyerr + store" where
  "run json_load [] st = Inr st"
| "run json_load (a # as) st = bind_res (step json_load a st) (run json_load as)"

subsection \<open>Rows of the chart\<close>

record chart_row =
  Title :: pyval
  Start :: date
  End :: date
  Story :: pyval
  Era :: pyval
  Category :: string

definition chart_row_of :: "pyval \<Rightarrow> pyerr + chart_row option" where
  "chart_row_of e =
     bind_res (py_get e ''start_date'' (PStr [])) (\<lambda>s.
     bind_res (safe_parse_date s) (\<lambda>sd.
     bind_res (py_get e ''end_date'' (PStr [])) (\<lambda>t.
     bind_res (safe_parse_date t) (\<lambda>ed0.
     let ed = (case ed0 of Some d \<Rightarrow> Some d | None \<Rightarrow> sd) in
     (case sd of
        None \<Rightarrow> Inr None
      | Some start \<Rightarrow>
          bind_res (py_get e ''title'' (PStr [])) (\<lambda>ti.
          bind_res (py_get e ''story'' (PStr [])) (\<lambda>sto.
          bind_res (py_get e ''era'' (PStr [])) (\<lambda>er.
          bind_res (py_get e ''categories'' (PList [])) (\<lambda>cats.
          bind_res (py_join_val '', '' (ensure_list cats)) (\<lambda>cj.
          Inr (Some \<lparr>Title = ti, Start = start,
                     End = (case ed of Some d \<Rightarrow> d | None \<Rightarrow> start),
                     Story = sto, Era = er,
                     Category = (if cj \<noteq> [] then cj else ''Uncategorized'')\<rparr>)))))))))))"

fun chart_rows :: "pyval list \<Rightarrow> pyerr + chart_row list" where
  "chart_rows [] = Inr []"
| "chart_rows (e # es) =
     bind_res (chart_row_of e) (\<lambda>r.
     bind_res (chart_rows es) (\<lambda>rs.
     Inr (case r of None \<Rightarrow> rs | Some x \<Rightarrow> x # rs)))"

section \<open>Events as records: the vocabulary of the specification\<close>

text \<open>
  Nothing in this section is code of the application. It fixes the words in which the
  properties are stated, and the functions named \<open>spec_\<close> say what the specification
  expects of a function of the source, to be compared with it.

  The statements below speak of events as records of declared fields: seven text
  fields, the two lists of strings \<^verbatim>\<open>characters\<close> and \<^verbatim>\<open>categories\<close>, and the integer
  \<^verbatim>\<open>sort_index\<close>. A partial event is a dictionary in which each of these fields is
  absent or holds a value of its type; its other keys, \<^verbatim>\<open>id\<close> among them, are free.
  The readers give the value of a field, and its zero value when the field is absent.
\<close>

definition field_of :: "pyval \<Rightarrow> string \<Rightarrow> pyval option" where
  "field_of e k = (case e of PDict kvs \<Rightarrow> map_of kvs k | _ \<Rightarrow> None)"

fun is_dict :: "pyval \<Rightarrow> bool" where
  "is_dict (PDict kvs) = True"
| "is_dict _ = False"

fun is_str :: "pyval \<Rightarrow> bool" where
  "is_str (PStr s) = True"
| "is_str _ = False"

fun is_int :: "pyval \<Rightarrow> bool" where
  "is_int (PInt i) = True"
| "is_int _ = False"

fun is_str_list :: "pyval \<Rightarrow> bool" where
  "is_str_list (PList xs) = list_all is_str xs"
| "is_str_list _ = False"

definition text_fields :: "string list" where
  "text_fields = [''title'', ''date_text'', ''start_date'', ''end_date'', ''era'', ''story'', ''notes'']"

definition list_fields :: "string list" where
  "list_fields = [''characters'', ''categories'']"

definition absent_or :: "(pyval \<Rightarrow> bool) \<Rightarrow> pyval \<Rightarrow> string \<Rightarrow> bool" where
  "absent_or T e k = (case field_of e k of None \<Rightarrow> True | Some v \<Rightarrow> T v)"

definition partial_event :: "pyval \<Rightarrow> bool" where
  "partial_event e =
     (is_dict e
      \<and> list_all (absent_or is_str e) text_fields
      \<and> list_all (absent_or is_str_list e) list_fields
      \<and> absent_or is_int e ''sort_index'')"

fun strs :: "pyval list \<Rightarrow> string list" where
  "strs [] = []"
| "strs (PStr s # vs) = s # strs vs"
| "strs (v # vs) = strs vs"

definition text_of :: "pyval \<Rightarrow> string \<Rightarrow> string" where
  "text_of e k = (case field_of e k of Some (PStr s) \<Rightarrow> s | _ \<Rightarrow> [])"

definition strs_of :: "pyval \<Rightarrow> string \<Rightarrow> string list" where
  "strs_of e k = (case field_of e k of Some (PList xs) \<Rightarrow> strs xs | _ \<Rightarrow> [])"

definition int_of_field :: "pyval \<Rightarrow> string \<Rightarrow> int" where
  "int_of_field e k = (case field_of e k of Some (PInt i) \<Rightarrow> i | _ \<Rightarrow> 0)"

text \<open>The event with every absent declared field set to its zero value.\<close>

definition zero_fields :: "(string \<times> pyval) list" where
  "zero_fields =
     [(''title'', PStr []),
      (''date_text'', PStr []),
      (''start_date'', PStr []),
      (''end_date'', PStr []),
      (''era'', PStr []),
      (''story'', PStr []),
      (''characters'', PList []),
      (''categories'', PList []),
      (''notes'', PStr []),
      (''sort_index'', PInt 0)]"

fun fill_missing :: "pyval \<Rightarrow> pyval" where
  "fill_missing (PDict kvs) = PDict (kvs @ zero_fields)"
| "fill_missing v = v"

subsection \<open>The criteria of the filter, read on records\<close>

text \<open>
  The text the keyword is searched in, first as the concatenation of the seven items,
  then with a space between the items, as \<^verbatim>\<open>" ".join\<close> builds it. In both, a list is
  joined with a comma and a space.
\<close>

definition spec_search_items :: "pyval \<Rightarrow> string list" where
  "spec_search_items e =
     [text_of e ''title'', text_of e ''date_text'', text_of e ''story'', text_of e ''era'',
      py_join '', '' (strs_of e ''characters''), py_join '', '' (strs_of e ''categories''),
      text_of e ''notes'']"

definition spec_concatenated_text :: "pyval \<Rightarrow> string" where
  "spec_concatenated_text e = concat (spec_search_items e)"

definition spec_spaced_text :: "pyval \<Rightarrow> string" where
  "spec_spaced_text e = py_join '' '' (spec_search_items e)"

text \<open>
  An event meets the criteria when it passes each one that is not empty; the first
  argument is the text the keyword is searched in.
\<close>

definition spec_meets ::
  "(pyval \<Rightarrow> string) \<Rightarrow> string \<Rightarrow> string \<Rightarrow> string \<Rightarrow> string \<Rightarrow> string \<Rightarrow> pyval \<Rightarrow> bool" where
  "spec_meets searched story era character category keyword e =
     ((story = [] \<or> py_strip (text_of e ''story'') = story)
      \<and> (era = [] \<or> py_strip (text_of e ''era'') = era)
      \<and> (character = [] \<or> py_lower character \<in> set (map py_lower (strs_of e ''characters'')))
      \<and> (category = [] \<or> py_lower category \<in> set (map py_lower (strs_of e ''categories'')))
      \<and> (keyword = [] \<or> sublist (py_lower keyword) (py_lower (searched e))))"

subsection \<open>The row of the chart, read on records\<close>

definition spec_row_of :: "pyval \<Rightarrow> chart_row option" where
  "spec_row_of e =
     (case safe_parse_date (PStr (text_of e ''start_date'')) of
        Inr (Some start) \<Rightarrow>
          Some \<lparr>Title = PStr (text_of e ''title''),
                Start = start,
                End = (case safe_parse_date (PStr (text_of e ''end_date'')) of
                         Inr (Some d) \<Rightarrow> d
                       | _ \<Rightarrow> start),
                Story = PStr (text_of e ''story''),
                Era = PStr (text_of e ''era''),
                Category = (if py_join '', '' (strs_of e ''categories'') = [] then ''Uncategorized''
                            else py_join '', '' (strs_of e ''categories''))\<rparr>
      | _ \<Rightarrow> None)"

subsection \<open>Removal of duplicates, read on lists\<close>

text \<open>
  The first part is kept with its spelling, and every later part that equals it without
  regard to case is dropped; so on through the parts that remain.
\<close>

fun spec_dedupe :: "string list \<Rightarrow> string list" where
  "spec_dedupe [] = []"
| "spec_dedupe (p # ps) = p # spec_dedupe (filter (\<lambda>q. py_lower q \<noteq> py_lower p) ps)"

subsection \<open>The invariant of the lists of an event\<close>

text \<open>No two strings of the list are equal without regard to case.\<close>

definition ci_distinct :: "string list \<Rightarrow> bool" where
  "ci_distinct ss = distinct (map py_lower ss)"

definition event_inv :: "pyval \<Rightarrow> bool" where
  "event_inv e = (ci_distinct (strs_of e ''characters'') \<and> ci_distinct (strs_of e ''categories''))"

definition store_inv :: "store \<Rightarrow> bool" where
  "store_inv st = list_all event_inv (events st)"

text \<open>The documents an upload may install without breaking the invariant.\<close>

fun clean_upload :: "('b \<Rightarrow> 'x + pyval) \<Rightarrow> 'b action \<Rightarrow> bool" where
  "clean_upload json_load (Upload f) =
     (case json_load f of Inr (PList xs) \<Rightarrow> list_all event_inv xs | _ \<Rightarrow> True)"
| "clean_upload json_load a = True"

subsection \<open>An edit id that no stored event carries\<close>

text \<open>Every stored event has a string as its id, and none of them is \<open>i\<close>.\<close>

definition id_absent :: "string \<Rightarrow> pyval list \<Rightarrow> bool" where
  "id_absent i evs = list_all (\<lambda>e. case field_of e ''id'' of Some (PStr s) \<Rightarrow> s \<noteq> i | _ \<Rightarrow> False) evs"

section \<open>Properties\<close>

lemma bind_res_simps [simp]:
  "bind_res (Inl e) f = Inl e"
  "bind_res (Inr v) f = f v"
  by (simp_all add: bind_res_def)

subsection \<open>The date parser\<close>

lemma strip_all_space: "list_all py_isspace s \<Longrightarrow> py_strip s = []"
proof -
  assume "list_all py_isspace s"
  then have "dropWhile py_isspace s = []" by (simp add: list_all_iff)
  then show ?thesis by (simp only: py_strip_def rev.simps dropWhile.simps)
qed

lemma strptime_empty: "strptime [] f = Inl ValueError"
  by (cases f) (simp_all add: strptime_def)

lemma try_fmts_empty: "try_fmts fs [] = None"
  by (induction fs) (simp_all add: strptime_empty)

lemma safe_parse_date_str: "safe_parse_date (PStr s) = Inr (try_fmts fmts (py_strip s))"
  by (cases "s = []") (simp_all add: py_strip_def try_fmts_empty)

lemma digit_val_less: "digit_val c = Some n \<Longrightarrow> n \<le> 9"
  by (auto simp: digit_val_def Let_def split: if_splits)

lemma digit_not_space: "digit_val c = Some n \<Longrightarrow> \<not> py_isspace c"
  by (auto simp: digit_val_def py_isspace_def Let_def split: if_splits)

lemma strptime_Y_digits:
  assumes "digit_val a = Some w" "digit_val b = Some x" "digit_val c = Some y" "digit_val e = Some z"
  shows "strptime [a, b, c, e] FmtYMD = Inl ValueError"
    and "strptime [a, b, c, e] FmtYM = Inl ValueError"
    and "strptime [a, b, c, e] FmtY =
          (if 1 \<le> 1000 * w + 100 * x + 10 * y + z
           then Inr (1000 * w + 100 * x + 10 * y + z, 1, 1) else Inl ValueError)"
proof -
  have le: "1000 * w + 100 * x + 10 * y + z \<le> 9999"
    using assms[THEN digit_val_less] by linarith
  show "strptime [a, b, c, e] FmtYMD = Inl ValueError" using assms by (simp add: strptime_def)
  show "strptime [a, b, c, e] FmtYM = Inl ValueError" using assms by (simp add: strptime_def)
  show "strptime [a, b, c, e] FmtY =
          (if 1 \<le> 1000 * w + 100 * x + 10 * y + z
           then Inr (1000 * w + 100 * x + 10 * y + z, 1, 1) else Inl ValueError)"
    using assms le by (simp add: strptime_def valid_date_def days_in_month_def)
qed

lemma year_only:
  assumes "digit_val a = Some w" "digit_val b = Some x" "digit_val c = Some y" "digit_val e = Some z"
    and "1 \<le> 1000 * w + 100 * x + 10 * y + z"
  shows "safe_parse_date (PStr [a, b, c, e]) = Inr (Some (1000 * w + 100 * x + 10 * y + z, 1, 1))"
proof -
  have sp: "py_strip [a, b, c, e] = [a, b, c, e]"
    using assms(1,4) by (simp add: py_strip_def digit_not_space)
  show ?thesis
    unfolding safe_parse_date_str sp fmts_def
    using assms(5) by (simp add: strptime_Y_digits[OF assms(1-4)])
qed

lemma strptime_valid: "strptime t f = Inr d \<Longrightarrow> valid_date d"
  by (auto simp: strptime_def split: list.splits if_splits)

lemma strptime_whole: "strptime t f = Inr d \<Longrightarrow> \<exists>r. re_fmt f t = (d, []) # r"
  by (auto simp: strptime_def split: list.splits if_splits)

lemma try_fmts_valid: "try_fmts fs t = Some d \<Longrightarrow> valid_date d"
  by (induction fs) (auto split: sum.splits dest: strptime_valid)

lemma try_fmts_order:
  "try_fmts fmts t =
     (case strptime t FmtYMD of Inr d \<Rightarrow> Some d | Inl e1 \<Rightarrow>
     (case strptime t FmtYM of Inr d \<Rightarrow> Some d | Inl e2 \<Rightarrow>
     (case strptime t FmtY of Inr d \<Rightarrow> Some d | Inl e3 \<Rightarrow> None)))"
  by (simp add: fmts_def split: sum.splits)

lemmas date_eval = fmts_def strptime_def py_strip_def py_isspace_def re_m_def re_d_def digit_val_def
  valid_date_def days_in_month_def is_leap_def

lemma parse_examples:
  "safe_parse_date (PStr ''1999-13'') = Inr None"
  "safe_parse_date (PStr ''2001-02-29'') = Inr None"
  "safe_parse_date (PStr ''2000-02-29'') = Inr (Some (2000, 2, 29))"
  "safe_parse_date (PStr ''1842'') = Inr (Some (1842, 1, 1))"
  by (simp_all add: date_eval)

lemma parse_latin1_space:
  "safe_parse_date (PStr (''1842'' @ [CHR 0xA0])) = Inr (Some (1842, 1, 1))"
  "safe_parse_date (PStr ([CHR 0x85] @ ''1842'')) = Inr (Some (1842, 1, 1))"
  by (simp_all add: date_eval)

text \<open>
  Claim C6. On every string, \<open>safe_parse_date\<close> returns normally; its result is the first
  success among the formats year-month-day, year-month and year, tried in that order on
  the stripped text. A text of whitespace only (the empty text too) gives no date. A
  date that is returned is a date of the calendar, and the format that gave it matched
  the whole text, with nothing left over. Four digits that spell a year from 1 on give
  the first of January of that year. \<^verbatim>\<open>"1999-13"\<close> and \<^verbatim>\<open>"2001-02-29"\<close> give no date,
  \<^verbatim>\<open>"2000-02-29"\<close> parses, and \<^verbatim>\<open>"1842"\<close> is 1842-01-01.
\<close>

theorem safe_parse_date_contract:
  "safe_parse_date (PStr s) =
     Inr (case strptime (py_strip s) FmtYMD of Inr d \<Rightarrow> Some d | Inl e1 \<Rightarrow>
         (case strptime (py_strip s) FmtYM of Inr d \<Rightarrow> Some d | Inl e2 \<Rightarrow>
         (case strptime (py_strip s) FmtY of Inr d \<Rightarrow> Some d | Inl e3 \<Rightarrow> None)))
   \<and> (list_all py_isspace s \<longrightarrow> safe_parse_date (PStr s) = Inr None)
   \<and> (\<forall>d. safe_parse_date (PStr s) = Inr (Some d) \<longrightarrow> valid_date d)
   \<and> (\<forall>f d. strptime (py_strip s) f = Inr d \<longrightarrow> (\<exists>r. re_fmt f (py_strip s) = (d, []) # r))
   \<and> (\<forall>a b c e w x y z. s = [a, b, c, e] \<and> digit_val a = Some w \<and> digit_val b = Some x
         \<and> digit_val c = Some y \<and> digit_val e = Some z \<and> 1 \<le> 1000 * w + 100 * x + 10 * y + z
       \<longrightarrow> safe_parse_date (PStr s) = Inr (Some (1000 * w + 100 * x + 10 * y + z, 1, 1)))
   \<and> safe_parse_date (PStr ''1999-13'') = Inr None
   \<and> safe_parse_date (PStr ''2001-02-29'') = Inr None
   \<and> safe_parse_date (PStr ''2000-02-29'') = Inr (Some (2000, 2, 29))
   \<and> safe_parse_date (PStr ''1842'') = Inr (Some (1842, 1, 1))"
proof (intro conjI allI impI)
  show "safe_parse_date (PStr s) =
     Inr (case strptime (py_strip s) FmtYMD of Inr d \<Rightarrow> Some d | Inl e1 \<Rightarrow>
         (case strptime (py_strip s) FmtYM of Inr d \<Rightarrow> Some d | Inl e2 \<Rightarrow>
         (case strptime (py_strip s) FmtY of Inr d \<Rightarrow> Some d | Inl e3 \<Rightarrow> None)))"
    by (simp only: safe_parse_date_str try_fmts_order)
next
  assume "list_all py_isspace s"
  then show "safe_parse_date (PStr s) = Inr None"
    by (simp only: safe_parse_date_str strip_all_space try_fmts_empty)
next
  fix d assume "safe_parse_date (PStr s) = Inr (Some d)"
  then have "try_fmts fmts (py_strip s) = Some d"
    by (simp only: safe_parse_date_str sum.inject)
  then show "valid_date d" by (rule try_fmts_valid)
next
  fix f d assume "strptime (py_strip s) f = Inr d"
  then show "\<exists>r. re_fmt f (py_strip s) = (d, []) # r" by (rule strptime_whole)
next
  fix a b c e w x y z
  assume "s = [a, b, c, e] \<and> digit_val a = Some w \<and> digit_val b = Some x
         \<and> digit_val c = Some y \<and> digit_val e = Some z \<and> 1 \<le> 1000 * w + 100 * x + 10 * y + z"
  then show "safe_parse_date (PStr s) = Inr (Some (1000 * w + 100 * x + 10 * y + z, 1, 1))"
    using year_only by blast
qed (rule parse_examples)+

theorem safe_parse_date_contract_witness:
  "safe_parse_date (PStr '' '') = Inr None \<and> valid_date (1820, 6, 1)"
proof -
  have sp: "list_all py_isspace '' ''" by (simp add: py_isspace_def)
  have p: "safe_parse_date (PStr ''1820-06'') = Inr (Some (1820, 6, 1))" by (simp add: date_eval)
  have 1: "safe_parse_date (PStr '' '') = Inr None"
    using safe_parse_date_contract [of "'' ''", THEN conjunct2, THEN conjunct1] sp by (rule mp)
  have 2: "valid_date (1820, 6, 1)"
    by (rule safe_parse_date_contract [of "''1820-06''", THEN conjunct2, THEN conjunct2,
          THEN conjunct1, rule_format, OF p])
  from 1 2 show ?thesis by (rule conjI)
qed

subsection \<open>Ordering of the events\<close>

text \<open>
  Claim C1. The claim sorts every event whose start date does not parse after every
  event whose start date parses. The key of \<open>sorted_events\<close> replaces a missing date by
  9999-12-31, which is itself a date the parser returns: \<^verbatim>\<open>"9999-12-31"\<close> parses, the
  empty text does not, the two keys agree on the date, and the sort index decides. The
  undated event with sort index 0 is placed before the dated event with sort index 1.
\<close>

theorem sorted_events_sentinel_collision:
  "safe_parse_date (PStr ''9999-12-31'') = Inr (Some (9999, 12, 31))
   \<and> safe_parse_date (PStr []) = Inr None
   \<and> sorted_events
       [PDict [(''id'', PStr ''a''), (''title'', PStr ''Late''),
               (''start_date'', PStr ''9999-12-31''), (''sort_index'', PInt 1)],
        PDict [(''id'', PStr ''b''), (''title'', PStr ''Undated''),
               (''start_date'', PStr []), (''sort_index'', PInt 0)]]
     = Inr [PDict [(''id'', PStr ''b''), (''title'', PStr ''Undated''),
                   (''start_date'', PStr []), (''sort_index'', PInt 0)],
            PDict [(''id'', PStr ''a''), (''title'', PStr ''Late''),
                   (''start_date'', PStr ''9999-12-31''), (''sort_index'', PInt 1)]]"
  by (simp add: sorted_events_def key_def sentinel_def date_eval py_lower_def lower_char_def)

subsection \<open>Import of a rejected document\<close>

text \<open>
  Claim C8. When the uploaded document does not decode, or decodes to a value that is
  not a list, the import leaves the whole session state as it was and reports the
  failure.
\<close>

theorem import_rejected_store_untouched:
  assumes "(\<exists>e. json_load f = Inl e) \<or> (\<exists>v. json_load f = Inr v \<and> (\<forall>xs. v \<noteq> PList xs))"
  shows "fst (import_json json_load (Some f) st) = st
       \<and> snd (import_json json_load (Some f) st) \<in> {Some LoadFailed, Some InvalidFormat}"
  using assms by (auto simp: import_json_def split: sum.splits pyval.splits)

theorem import_rejected_store_untouched_witness:
  "fst (import_json (\<lambda>b. if b = ''{}'' then Inr (PDict []) else Inl ValueError) (Some ''{}'')
        \<lparr>events = [PDict [(''id'', PStr ''a'')]], edit_id = PNone\<rparr>)
   = \<lparr>events = [PDict [(''id'', PStr ''a'')]], edit_id = PNone\<rparr>
   \<and> fst (import_json (\<lambda>b. if b = ''{}'' then Inr (PDict []) else Inl ValueError) (Some ''{'')
        \<lparr>events = [PDict [(''id'', PStr ''a'')]], edit_id = PNone\<rparr>)
   = \<lparr>events = [PDict [(''id'', PStr ''a'')]], edit_id = PNone\<rparr>"
  using import_rejected_store_untouched [of "\<lambda>b. if b = ''{}'' then Inr (PDict []) else Inl ValueError"
          "''{}''"
          "\<lparr>events = [PDict [(''id'', PStr ''a'')]], edit_id = PNone\<rparr>"]
        import_rejected_store_untouched [of "\<lambda>b. if b = ''{}'' then Inr (PDict []) else Inl ValueError"
          "''{''"
          "\<lparr>events = [PDict [(''id'', PStr ''a'')]], edit_id = PNone\<rparr>"]
  by simp

subsection \<open>Normalisation of the lists\<close>

lemma dedupe_loop_eq:
  "dedupe_loop ps seen out = out @ spec_dedupe (filter (\<lambda>q. py_lower q \<notin> seen) ps)"
proof (induction ps arbitrary: seen out)
  case Nil
  then show ?case by simp
next
  case (Cons p ps)
  have "filter (\<lambda>q. py_lower q \<notin> insert (py_lower p) seen) ps
      = filter (\<lambda>q. py_lower q \<noteq> py_lower p) (filter (\<lambda>q. py_lower q \<notin> seen) ps)"
    by (auto intro: filter_cong)
  then show ?case by (simp add: Cons.IH)
qed

lemma spec_dedupe_set: "set (spec_dedupe ps) \<subseteq> set ps"
  by (induction ps rule: spec_dedupe.induct) auto

lemma spec_dedupe_lower_set: "py_lower ` set (spec_dedupe ps) = py_lower ` set ps"
  by (induction ps rule: spec_dedupe.induct) auto

lemma spec_dedupe_distinct: "distinct (map py_lower (spec_dedupe ps))"
proof (induction ps rule: spec_dedupe.induct)
  case 1
  then show ?case by simp
next
  case (2 p ps)
  have "py_lower p \<notin> py_lower ` set (spec_dedupe (filter (\<lambda>q. py_lower q \<noteq> py_lower p) ps))"
    using spec_dedupe_set[of "filter (\<lambda>q. py_lower q \<noteq> py_lower p) ps"] by auto
  with 2 show ?case by simp
qed

lemma spec_dedupe_subseq: "subseq (spec_dedupe ps) ps"
proof (induction ps rule: spec_dedupe.induct)
  case 1
  then show ?case by simp
next
  case (2 p ps)
  have "subseq (filter (\<lambda>q. py_lower q \<noteq> py_lower p) ps) ps" by simp
  with 2 have "subseq (spec_dedupe (filter (\<lambda>q. py_lower q \<noteq> py_lower p) ps)) ps"
    by (rule subseq_order.trans)
  then show ?case by simp
qed

lemma spec_dedupe_first:
  "p \<in> set (spec_dedupe ps) \<Longrightarrow> find (\<lambda>q. py_lower q = py_lower p) ps = Some p"
proof (induction ps rule: spec_dedupe.induct)
  case 1
  then show ?case by simp
next
  case (2 x xs)
  show ?case
  proof (cases "p = x")
    case True
    then show ?thesis by simp
  next
    case False
    with 2 have mem: "p \<in> set (spec_dedupe (filter (\<lambda>q. py_lower q \<noteq> py_lower x) xs))" by simp
    then have "p \<in> set (filter (\<lambda>q. py_lower q \<noteq> py_lower x) xs)"
      using spec_dedupe_set by blast
    then have ne: "py_lower p \<noteq> py_lower x" by simp
    have "find (\<lambda>q. py_lower q = py_lower p) (filter (\<lambda>q. py_lower q \<noteq> py_lower x) xs)
        = find (\<lambda>q. py_lower q = py_lower p) xs"
      using ne by (induction xs) auto
    with 2(1)[OF mem] ne show ?thesis by auto
  qed
qed

lemma spec_dedupe_id: "distinct (map py_lower ps) \<Longrightarrow> spec_dedupe ps = ps"
proof (induction ps)
  case Nil
  then show ?case by simp
next
  case (Cons p ps)
  from Cons.prems have "py_lower p \<notin> py_lower ` set ps" by simp
  then have "\<And>q. q \<in> set ps \<Longrightarrow> py_lower q \<noteq> py_lower p" by (metis imageI)
  then have "filter (\<lambda>q. py_lower q \<noteq> py_lower p) ps = ps"
    by (simp add: filter_id_conv)
  with Cons show ?case by simp
qed

lemma concat_if_filter:
  "concat (map (\<lambda>p. if f p \<noteq> [] then [f p] else []) xs) = filter (\<lambda>p. p \<noteq> []) (map f xs)"
  by (induction xs) simp_all

lemma comma_parts_eq:
  "comma_parts s = filter (\<lambda>p. p \<noteq> []) (map py_strip (py_split CHR '','' s))"
  unfolding comma_parts_def by (rule concat_if_filter)

lemma ensure_list_str:
  "ensure_list (PStr s) = map PStr (spec_dedupe (filter (\<lambda>p. p \<noteq> []) (map py_strip (py_split CHR '','' s))))"
  by (simp add: py_str_def dedupe_loop_eq comma_parts_eq)

lemma py_split_join: "py_join [c] (py_split c s) = s"
proof (induction s)
  case Nil
  then show ?case by simp
next
  case (Cons a s)
  then show ?case
    by (cases "py_split c s"; cases "tl (py_split c s)") (auto split: list.splits)
qed

lemma py_split_no_sep: "p \<in> set (py_split c s) \<Longrightarrow> c \<notin> set p"
  by (induction s arbitrary: p) (auto split: if_splits list.splits)

lemma ensure_list_example: "ensure_list (PStr ''Bob, bob, BOB, Alice'') = [PStr ''Bob'', PStr ''Alice'']"
  by code_simp

lemma ensure_list_latin1:
  "ensure_list (PStr ([CHR 0xC9] @ '', '' @ [CHR 0xE9])) = [PStr [CHR 0xC9]]"
  "ensure_list (PStr (''Bob'' @ [CHR 0xA0] @ '', Bob'')) = [PStr ''Bob'']"
  by code_simp+


text \<open>
  Claim C7. \<open>ensure_list\<close> maps \<^verbatim>\<open>None\<close> to the empty list and returns a list as it is; on a
  string it splits at the commas (joining the parts with commas gives the string back,
  and no part holds a comma), strips every part, drops the empty ones and removes the
  duplicates without regard to case. The removal returns a subsequence of the parts in
  which no two entries are equal without regard to case, every part is still
  represented, and each entry is the first part of its spelling class; a list without
  such duplicates is returned as it is. Normalising the result of a normalisation
  changes nothing, and \<^verbatim>\<open>"Bob, bob, BOB, Alice"\<close> gives \<^verbatim>\<open>["Bob", "Alice"]\<close>.
\<close>

theorem ensure_list_contract:
  "ensure_list PNone = []
   \<and> ensure_list (PList xs) = xs
   \<and> ensure_list (PStr s) =
         map PStr (spec_dedupe (filter (\<lambda>p. p \<noteq> []) (map py_strip (py_split CHR '','' s))))
   \<and> py_join '','' (py_split CHR '','' s) = s
   \<and> (\<forall>p \<in> set (py_split CHR '','' s). CHR '','' \<notin> set p)
   \<and> subseq (spec_dedupe ps) ps
   \<and> distinct (map py_lower (spec_dedupe ps))
   \<and> py_lower ` set (spec_dedupe ps) = py_lower ` set ps
   \<and> (\<forall>p \<in> set (spec_dedupe ps). find (\<lambda>q. py_lower q = py_lower p) ps = Some p)
   \<and> (distinct (map py_lower ps) \<longrightarrow> spec_dedupe ps = ps)
   \<and> ensure_list (PList (ensure_list v)) = ensure_list v
   \<and> ensure_list (PStr ''Bob, bob, BOB, Alice'') = [PStr ''Bob'', PStr ''Alice'']"
proof (intro conjI ballI impI)
  show "ensure_list (PStr s) =
         map PStr (spec_dedupe (filter (\<lambda>p. p \<noteq> []) (map py_strip (py_split CHR '','' s))))"
    by (rule ensure_list_str)
  show "py_join '','' (py_split CHR '','' s) = s" by (rule py_split_join)
  show "subseq (spec_dedupe ps) ps" by (rule spec_dedupe_subseq)
  show "distinct (map py_lower (spec_dedupe ps))" by (rule spec_dedupe_distinct)
  show "py_lower ` set (spec_dedupe ps) = py_lower ` set ps" by (rule spec_dedupe_lower_set)
  show "ensure_list (PStr ''Bob, bob, BOB, Alice'') = [PStr ''Bob'', PStr ''Alice'']"
    by (rule ensure_list_example)
next
  fix p assume "p \<in> set (py_split CHR '','' s)"
  then show "CHR '','' \<notin> set p" by (rule py_split_no_sep)
next
  fix p assume "p \<in> set (spec_dedupe ps)"
  then show "find (\<lambda>q. py_lower q = py_lower p) ps = Some p" by (rule spec_dedupe_first)
next
  assume "distinct (map py_lower ps)"
  then show "spec_dedupe ps = ps" by (rule spec_dedupe_id)
qed simp_all

theorem ensure_list_contract_witness:
  "CHR '','' \<notin> set ''x''
   \<and> find (\<lambda>q. py_lower q = py_lower ''x'') [''x'', ''X'', ''y''] = Some ''x''
   \<and> spec_dedupe [''x'', ''y''] = [''x'', ''y'']"
proof -
  have a: "''x'' \<in> set (py_split CHR '','' ''x, X ,y'')" by simp
  have b: "''x'' \<in> set (spec_dedupe [''x'', ''X'', ''y''])" by simp
  have c: "distinct (map py_lower [''x'', ''y''])" by code_simp
  note t = ensure_list_contract [where s = "''x, X ,y''"]
  have 1: "CHR '','' \<notin> set ''x''"
    by (rule t [THEN conjunct2, THEN conjunct2, THEN conjunct2, THEN conjunct2, THEN conjunct1,
          rule_format, OF a])
  have 2: "find (\<lambda>q. py_lower q = py_lower ''x'') [''x'', ''X'', ''y''] = Some ''x''"
    by (rule ensure_list_contract [where ps = "[''x'', ''X'', ''y'']", THEN conjunct2, THEN conjunct2,
          THEN conjunct2, THEN conjunct2, THEN conjunct2, THEN conjunct2, THEN conjunct2,
          THEN conjunct2, THEN conjunct1, rule_format, OF b])
  have 3: "spec_dedupe [''x'', ''y''] = [''x'', ''y'']"
    by (rule ensure_list_contract [where ps = "[''x'', ''y'']", THEN conjunct2, THEN conjunct2,
          THEN conjunct2, THEN conjunct2, THEN conjunct2, THEN conjunct2, THEN conjunct2,
          THEN conjunct2, THEN conjunct2, THEN conjunct1, rule_format, OF c])
  from 1 2 3 show ?thesis by blast
qed

subsection \<open>Reading the fields of a partial event\<close>

lemma the_strs_map: "the_strs (map PStr ss) = Inr ss"
  by (induction ss) simp_all

lemma list_all_is_str: "list_all is_str xs \<Longrightarrow> map PStr (strs xs) = xs"
proof (induction xs)
  case Nil
  then show ?case by simp
next
  case (Cons v vs)
  then show ?case by (cases v) simp_all
qed

lemma map_res_lower: "map_res py_lower_val (map PStr ss) = Inr (map py_lower ss)"
  by (induction ss) simp_all

lemma py_join_val_strs: "py_join_val sep (map PStr ss) = Inr (py_join sep ss)"
  by (simp add: py_join_val_def the_strs_map)

lemma strs_map: "strs (map PStr ss) = ss"
  by (induction ss) simp_all

lemma get_text:
  assumes "partial_event e" and "k \<in> set text_fields"
  shows "py_get e k (PStr []) = Inr (PStr (text_of e k))"
proof -
  from assms(1) obtain kvs where e: "e = PDict kvs"
    by (cases e) (simp_all add: partial_event_def)
  from assms have "absent_or is_str e k"
    by (simp add: partial_event_def list_all_iff)
  then show ?thesis
    unfolding e absent_or_def text_of_def field_of_def
    by (cases "map_of kvs k"; cases "the (map_of kvs k)") simp_all
qed

lemma get_strs:
  assumes "partial_event e" and "k \<in> set list_fields"
  shows "py_get e k (PList []) = Inr (PList (map PStr (strs_of e k)))"
proof -
  from assms(1) obtain kvs where e: "e = PDict kvs"
    by (cases e) (simp_all add: partial_event_def)
  from assms have "absent_or is_str_list e k"
    by (simp add: partial_event_def list_all_iff)
  then show ?thesis
    unfolding e absent_or_def strs_of_def field_of_def
    by (cases "map_of kvs k"; cases "the (map_of kvs k)") (simp_all add: list_all_is_str)
qed

lemma get_int:
  assumes "partial_event e"
  shows "py_get e ''sort_index'' (PInt 0) = Inr (PInt (int_of_field e ''sort_index''))"
proof -
  from assms(1) obtain kvs where e: "e = PDict kvs"
    by (cases e) (simp_all add: partial_event_def)
  from assms have "absent_or is_int e ''sort_index''"
    by (simp add: partial_event_def)
  then show ?thesis
    unfolding e absent_or_def int_of_field_def field_of_def
    by (cases "map_of kvs ''sort_index''"; cases "the (map_of kvs ''sort_index'')") simp_all
qed

lemma text_field_mem:
  "''title'' \<in> set text_fields" "''date_text'' \<in> set text_fields"
  "''start_date'' \<in> set text_fields" "''end_date'' \<in> set text_fields"
  "''era'' \<in> set text_fields" "''story'' \<in> set text_fields" "''notes'' \<in> set text_fields"
  by (simp_all add: text_fields_def)

lemma list_field_mem:
  "''characters'' \<in> set list_fields" "''categories'' \<in> set list_fields"
  by (simp_all add: list_fields_def)

lemmas get_fields =
  text_field_mem [THEN get_text [rotated]] list_field_mem [THEN get_strs [rotated]] get_int

subsection \<open>The filter on partial events\<close>

lemma is_prefix_prefix: "is_prefix xs ys = prefix xs ys"
  by (induction xs ys rule: is_prefix.induct) simp_all

lemma py_in_str_sublist: "py_in_str needle hay = sublist needle hay"
  by (induction hay) (simp_all add: is_prefix_prefix sublist_Cons_right)

lemma check_text_partial:
  assumes "partial_event e" and "k \<in> set text_fields"
  shows "check_text crit k e = Inr (crit = [] \<or> py_strip (text_of e k) = crit)"
  by (simp add: check_text_def get_text [OF assms])

lemma check_member_partial:
  assumes "partial_event e" and "k \<in> set list_fields"
  shows "check_member crit k e = Inr (crit = [] \<or> py_lower crit \<in> set (map py_lower (strs_of e k)))"
  by (simp add: check_member_def get_strs [OF assms] map_res_lower)

lemma blob_partial:
  assumes "partial_event e"
  shows "blob e = Inr (py_lower (spec_spaced_text e))"
  using assms
  by (simp add: blob_def get_fields py_join_val_def the_strs_map spec_spaced_text_def spec_search_items_def)

lemma check_keyword_partial:
  assumes "partial_event e"
  shows "check_keyword kw e = Inr (kw = [] \<or> sublist (py_lower kw) (py_lower (spec_spaced_text e)))"
  by (simp add: check_keyword_def blob_partial [OF assms] py_in_str_sublist)

lemma match_partial:
  assumes "partial_event e"
  shows "match story era character category keyword e
       = Inr (spec_meets spec_spaced_text story era character category keyword e)"
  unfolding match_def
    check_text_partial [OF assms text_field_mem(6)] check_text_partial [OF assms text_field_mem(5)]
    check_member_partial [OF assms list_field_mem(1)] check_member_partial [OF assms list_field_mem(2)]
    check_keyword_partial [OF assms] spec_meets_def
  by auto

lemma filter_res_total:
  "(\<And>x. x \<in> set xs \<Longrightarrow> p x = Inr (q x)) \<Longrightarrow> filter_res p xs = Inr (filter q xs)"
  by (induction xs) simp_all

lemma filtered_events_partial:
  assumes "list_all partial_event evs"
  shows "filtered_events evs story era character category keyword
       = Inr (filter (spec_meets spec_spaced_text story era character category keyword) evs)"
  unfolding filtered_events_def
  using assms by (intro filter_res_total match_partial) (simp add: list_all_iff)

lemma filtered_events_no_criteria: "filtered_events evs [] [] [] [] [] = Inr evs"
  unfolding filtered_events_def
  by (induction evs) (simp_all add: match_def check_text_def check_member_def check_keyword_def)

subsection \<open>The sort key on partial events\<close>

lemma key_partial:
  assumes "partial_event e"
  shows "key e = Inr (case try_fmts fmts (py_strip (text_of e ''start_date'')) of
                        Some d \<Rightarrow> d | None \<Rightarrow> sentinel,
                      int_of_field e ''sort_index'', py_lower (text_of e ''title''))"
  using assms by (simp add: key_def get_fields safe_parse_date_str del: safe_parse_date.simps)

lemma map_res_total:
  "(\<And>x. x \<in> set xs \<Longrightarrow> f x = Inr (g x)) \<Longrightarrow> map_res f xs = Inr (map g xs)"
  by (induction xs) simp_all

subsection \<open>The chart on partial events\<close>

lemma chart_row_of_partial:
  assumes "partial_event e"
  shows "chart_row_of e = Inr (spec_row_of e)"
  using assms
  by (simp add: chart_row_of_def spec_row_of_def get_fields safe_parse_date_str py_join_val_strs
        del: safe_parse_date.simps split: option.splits)

lemma chart_rows_partial:
  "list_all partial_event evs \<Longrightarrow> chart_rows evs = Inr (List.map_filter spec_row_of evs)"
  by (induction evs) (simp_all add: chart_row_of_partial split: option.splits)


subsection \<open>Absent fields and their zero values\<close>

lemma field_of_fill:
  "is_dict e \<Longrightarrow>
   field_of (fill_missing e) k = (case field_of e k of Some v \<Rightarrow> Some v | None \<Rightarrow> map_of zero_fields k)"
  by (cases e) (simp_all add: field_of_def map_add_def)

lemma py_get_fill:
  "map_of zero_fields k = Some d \<Longrightarrow> py_get (fill_missing e) k d = py_get e k d"
  by (cases e) (simp_all add: map_add_def split: option.splits)

lemma zero_lookup:
  "map_of zero_fields ''title'' = Some (PStr [])"
  "map_of zero_fields ''date_text'' = Some (PStr [])"
  "map_of zero_fields ''start_date'' = Some (PStr [])"
  "map_of zero_fields ''end_date'' = Some (PStr [])"
  "map_of zero_fields ''era'' = Some (PStr [])"
  "map_of zero_fields ''story'' = Some (PStr [])"
  "map_of zero_fields ''characters'' = Some (PList [])"
  "map_of zero_fields ''categories'' = Some (PList [])"
  "map_of zero_fields ''notes'' = Some (PStr [])"
  "map_of zero_fields ''sort_index'' = Some (PInt 0)"
  by (simp_all add: zero_fields_def)

lemmas get_fill = zero_lookup [THEN py_get_fill]

lemma check_text_fill:
  "map_of zero_fields k = Some (PStr []) \<Longrightarrow> check_text crit k (fill_missing e) = check_text crit k e"
  by (simp add: check_text_def py_get_fill)

lemma check_member_fill:
  "map_of zero_fields k = Some (PList []) \<Longrightarrow> check_member crit k (fill_missing e) = check_member crit k e"
  by (simp add: check_member_def py_get_fill)

lemma blob_fill: "blob (fill_missing e) = blob e"
  by (simp only: blob_def get_fill)

lemma check_keyword_fill: "check_keyword kw (fill_missing e) = check_keyword kw e"
  by (simp only: check_keyword_def blob_fill)

lemma match_fill:
  "match story era character category keyword (fill_missing e) = match story era character category keyword e"
  by (simp only: match_def check_text_fill [OF zero_lookup(6)] check_text_fill [OF zero_lookup(5)]
        check_member_fill [OF zero_lookup(7)] check_member_fill [OF zero_lookup(8)] check_keyword_fill)

lemma key_fill: "key (fill_missing e) = key e"
  by (simp only: key_def get_fill)

lemma filter_res_map_inv:
  "(\<And>x. p (g x) = p x) \<Longrightarrow> filter_res p xs = Inr r \<Longrightarrow> filter_res p (map g xs) = Inr (map g r)"
proof (induction xs arbitrary: r)
  case Nil
  then show ?case by simp
next
  case (Cons x xs)
  from Cons.prems(2) obtain b where b: "p x = Inr b"
    by (cases "p x") simp_all
  with Cons.prems(2) obtain r' where r': "filter_res p xs = Inr r'"
    by (cases "filter_res p xs") simp_all
  from Cons.IH [OF Cons.prems(1) r'] b r' Cons.prems show ?case by auto
qed

lemma map_res_map_inv: "(\<And>x. f (g x) = f x) \<Longrightarrow> map_res f (map g xs) = map_res f xs"
  by (induction xs) simp_all

lemma insort_key_map_inv:
  "(\<And>x. f (h x) = f x) \<Longrightarrow> insort_key f (h x) (map h ys) = map h (insort_key f x ys)"
  by (induction ys) simp_all

lemma sort_key_map_inv:
  "(\<And>x. f (h x) = f x) \<Longrightarrow> sort_key f (map h xs) = map h (sort_key f xs)"
  by (induction xs) (simp_all add: insort_key_map_inv)

lemma sorted_events_map_inv:
  assumes "\<And>x. key (g x) = key x" and "sorted_events evs = Inr r"
  shows "sorted_events (map g evs) = Inr (map g r)"
proof -
  from assms(2) obtain ks where ks: "map_res key evs = Inr ks"
    by (cases "map_res key evs") (simp_all add: sorted_events_def)
  with assms(2) have r: "r = map snd (sort_key fst (zip ks evs))"
    by (simp add: sorted_events_def)
  have "zip ks (map g evs) = map (\<lambda>p. (fst p, g (snd p))) (zip ks evs)"
    by (simp add: zip_map2 case_prod_beta)
  then have "sort_key fst (zip ks (map g evs)) = map (\<lambda>p. (fst p, g (snd p))) (sort_key fst (zip ks evs))"
    by (simp add: sort_key_map_inv)
  then show ?thesis
    by (simp add: sorted_events_def map_res_map_inv [of key g, OF assms(1)] ks r comp_def)
qed

lemma sorted_events_partial:
  assumes "list_all partial_event evs"
  shows "\<exists>r. sorted_events evs = Inr r"
proof -
  have "map_res key evs = Inr (map (\<lambda>e. (case try_fmts fmts (py_strip (text_of e ''start_date'')) of
                        Some d \<Rightarrow> d | None \<Rightarrow> sentinel,
                      int_of_field e ''sort_index'', py_lower (text_of e ''title''))) evs)"
    using assms by (intro map_res_total key_partial) (simp add: list_all_iff)
  then show ?thesis by (simp add: sorted_events_def)
qed

text \<open>
  Claim C10. On a list of partial events, \<open>filtered_events\<close> under any criteria and
  \<open>sorted_events\<close> return a result, and the result is the one they return on the same
  events with every absent declared field set to its zero value (the empty string, the
  empty list, 0), event for event.
\<close>

theorem missing_fields_read_as_zero:
  assumes "list_all partial_event evs"
  shows "(\<exists>r. filtered_events evs story era character category keyword = Inr r
            \<and> filtered_events (map fill_missing evs) story era character category keyword
                = Inr (map fill_missing r))
       \<and> (\<exists>r. sorted_events evs = Inr r
            \<and> sorted_events (map fill_missing evs) = Inr (map fill_missing r))
       \<and> (\<forall>e \<in> set evs. \<forall>k. field_of (fill_missing e) k
            = (case field_of e k of Some v \<Rightarrow> Some v | None \<Rightarrow> map_of zero_fields k))"
proof (intro conjI ballI allI)
  have "filtered_events evs story era character category keyword
       = Inr (filter (spec_meets spec_spaced_text story era character category keyword) evs)"
    using assms by (rule filtered_events_partial)
  then show "\<exists>r. filtered_events evs story era character category keyword = Inr r
            \<and> filtered_events (map fill_missing evs) story era character category keyword
                = Inr (map fill_missing r)"
    unfolding filtered_events_def
    using filter_res_map_inv [of "match story era character category keyword" fill_missing, OF match_fill]
    by blast
next
  from sorted_events_partial [OF assms] obtain r where "sorted_events evs = Inr r" ..
  then show "\<exists>r. sorted_events evs = Inr r
            \<and> sorted_events (map fill_missing evs) = Inr (map fill_missing r)"
    using sorted_events_map_inv [of fill_missing, OF key_fill] by blast
next
  fix e k assume "e \<in> set evs"
  with assms have "is_dict e" by (simp add: list_all_iff partial_event_def)
  then show "field_of (fill_missing e) k
            = (case field_of e k of Some v \<Rightarrow> Some v | None \<Rightarrow> map_of zero_fields k)"
    by (rule field_of_fill)
qed

theorem missing_fields_read_as_zero_witness:
  "(\<exists>r. filtered_events [PDict [], PDict [(''title'', PStr ''Fall of Ur'')]]
           ''Overmorrow'' [] ''Lira'' [] ''ur'' = Inr r
      \<and> filtered_events (map fill_missing [PDict [], PDict [(''title'', PStr ''Fall of Ur'')]])
           ''Overmorrow'' [] ''Lira'' [] ''ur'' = Inr (map fill_missing r))
   \<and> (\<exists>r. sorted_events [PDict [], PDict [(''title'', PStr ''Fall of Ur'')]] = Inr r
      \<and> sorted_events (map fill_missing [PDict [], PDict [(''title'', PStr ''Fall of Ur'')]])
           = Inr (map fill_missing r))"
proof -
  have p: "list_all partial_event [PDict [], PDict [(''title'', PStr ''Fall of Ur'')]]"
    by (simp add: partial_event_def absent_or_def field_of_def text_fields_def list_fields_def)
  from missing_fields_read_as_zero [OF p, of "''Overmorrow''" "[]" "''Lira''" "[]" "''ur''"]
  show ?thesis by blast
qed


lemmas record_eval = partial_event_def absent_or_def field_of_def text_fields_def list_fields_def
  text_of_def strs_of_def int_of_field_def

text \<open>
  Claim C4, as stated, searches the keyword in the concatenation of the seven items.
  The event below has the title \<^verbatim>\<open>a\<close> and the date text \<^verbatim>\<open>b\<close>, every other field empty;
  the keyword \<^verbatim>\<open>ab\<close> occurs in the concatenation, so the event meets the criteria as the
  claim reads them, and \<open>filtered_events\<close> does not return it: the text it searches has
  a space between the items.
\<close>

theorem filtered_events_keyword_not_concatenation:
  "partial_event (PDict [(''id'', PStr ''e1''), (''title'', PStr ''a''), (''date_text'', PStr ''b''),
        (''start_date'', PStr []), (''end_date'', PStr []), (''era'', PStr []), (''story'', PStr []),
        (''characters'', PList []), (''categories'', PList []), (''notes'', PStr []),
        (''sort_index'', PInt 0)])
   \<and> spec_meets spec_concatenated_text [] [] [] [] ''ab''
       (PDict [(''id'', PStr ''e1''), (''title'', PStr ''a''), (''date_text'', PStr ''b''),
        (''start_date'', PStr []), (''end_date'', PStr []), (''era'', PStr []), (''story'', PStr []),
        (''characters'', PList []), (''categories'', PList []), (''notes'', PStr []),
        (''sort_index'', PInt 0)])
   \<and> filtered_events
       [PDict [(''id'', PStr ''e1''), (''title'', PStr ''a''), (''date_text'', PStr ''b''),
        (''start_date'', PStr []), (''end_date'', PStr []), (''era'', PStr []), (''story'', PStr []),
        (''characters'', PList []), (''categories'', PList []), (''notes'', PStr []),
        (''sort_index'', PInt 0)]] [] [] [] [] ''ab'' = Inr []"
  by (simp add: record_eval spec_meets_def spec_concatenated_text_def spec_search_items_def
        py_in_str_sublist [symmetric] filtered_events_def match_def check_text_def check_member_def
        check_keyword_def blob_def py_join_val_def py_lower_def lower_char_def)

text \<open>
  Claim C4, amended. On a list of partial events, \<open>filtered_events\<close> returns exactly the
  events, in their order, that meet every criterion that is not empty: the stripped
  story and era equal the criterion, the lower-cased character and category are among
  the lower-cased entries of the event's lists, and the lower-cased keyword is a
  contiguous part of the lower-cased text made of title, date text, story, era, the
  characters joined with a comma and a space, the categories joined likewise, and the
  notes, with one space between the seven items. With every criterion empty, any list
  at all is returned as it is.
\<close>

theorem filtered_events_spaced:
  assumes "list_all partial_event evs"
  shows "filtered_events evs story era character category keyword
           = Inr (filter (spec_meets spec_spaced_text story era character category keyword) evs)
       \<and> filtered_events all_events [] [] [] [] [] = Inr all_events"
  using filtered_events_partial [OF assms] filtered_events_no_criteria by simp

theorem filtered_events_spaced_witness:
  "filtered_events
     [PDict [(''title'', PStr ''Crossing''), (''story'', PStr ''Overmorrow ''),
             (''characters'', PList [PStr ''Lira'', PStr ''Tam''])],
      PDict [(''title'', PStr ''Siege''), (''story'', PStr ''Overmorrow''),
             (''characters'', PList [PStr ''Tam''])],
      PDict [(''title'', PStr ''Vigil''), (''story'', PStr ''Stelo Vienas''),
             (''characters'', PList [PStr ''Lira''])]]
     ''Overmorrow'' [] ''lira'' [] ''ING  over''
   = Inr [PDict [(''title'', PStr ''Crossing''), (''story'', PStr ''Overmorrow ''),
                 (''characters'', PList [PStr ''Lira'', PStr ''Tam''])]]"
proof -
  have p: "list_all partial_event
     [PDict [(''title'', PStr ''Crossing''), (''story'', PStr ''Overmorrow ''),
             (''characters'', PList [PStr ''Lira'', PStr ''Tam''])],
      PDict [(''title'', PStr ''Siege''), (''story'', PStr ''Overmorrow''),
             (''characters'', PList [PStr ''Tam''])],
      PDict [(''title'', PStr ''Vigil''), (''story'', PStr ''Stelo Vienas''),
             (''characters'', PList [PStr ''Lira''])]]"
    by (simp add: record_eval)
  have q: "filter (spec_meets spec_spaced_text ''Overmorrow'' [] ''lira'' [] ''ING  over'')
     [PDict [(''title'', PStr ''Crossing''), (''story'', PStr ''Overmorrow ''),
             (''characters'', PList [PStr ''Lira'', PStr ''Tam''])],
      PDict [(''title'', PStr ''Siege''), (''story'', PStr ''Overmorrow''),
             (''characters'', PList [PStr ''Tam''])],
      PDict [(''title'', PStr ''Vigil''), (''story'', PStr ''Stelo Vienas''),
             (''characters'', PList [PStr ''Lira''])]]
     = [PDict [(''title'', PStr ''Crossing''), (''story'', PStr ''Overmorrow ''),
               (''characters'', PList [PStr ''Lira'', PStr ''Tam''])]]"
    by code_simp
  from filtered_events_spaced [OF p, THEN conjunct1, of "''Overmorrow''" "[]" "''lira''" "[]" "''ING  over''"]
  show ?thesis by (simp only: q)
qed

lemma spec_row_of_none:
  "(spec_row_of e = None) = (safe_parse_date (PStr (text_of e ''start_date'')) = Inr None)"
  by (simp add: spec_row_of_def safe_parse_date_str del: safe_parse_date.simps split: option.splits)

lemma chart_examples:
  "chart_rows [PDict [(''title'', PStr ''Census''), (''start_date'', PStr ''1900''), (''end_date'', PStr [])]]
     = Inr [\<lparr>Title = PStr ''Census'', Start = (1900, 1, 1), End = (1900, 1, 1),
             Story = PStr [], Era = PStr [], Category = ''Uncategorized''\<rparr>]"
  "chart_rows [PDict [(''title'', PStr ''Census''), (''start_date'', PStr [])]] = Inr []"
  by (simp_all add: chart_row_of_def py_join_val_def date_eval)

text \<open>
  Claim C5. On a list of partial events, the rows of the chart are the rows of the events
  whose start date parses, in their order; an event has no row exactly when its start
  date does not parse. A row starts at the parsed start date, ends at the parsed end
  date when that parses and at the start otherwise, and is labelled with the
  categories joined with a comma and a space, or with \<^verbatim>\<open>Uncategorized\<close> when that text is
  empty. The rows are a function of the list alone; no state is read or written. An
  event that starts in \<^verbatim>\<open>1900\<close> with an empty end date has the row from 1900-01-01 to
  1900-01-01, and an event with an empty start date has none.
\<close>

theorem chart_rows_projection:
  assumes "list_all partial_event evs"
  shows "chart_rows evs = Inr (List.map_filter spec_row_of evs)
       \<and> (\<forall>e \<in> set evs. (spec_row_of e = None) = (safe_parse_date (PStr (text_of e ''start_date'')) = Inr None))
       \<and> chart_rows [PDict [(''title'', PStr ''Census''), (''start_date'', PStr ''1900''),
                            (''end_date'', PStr [])]]
           = Inr [\<lparr>Title = PStr ''Census'', Start = (1900, 1, 1), End = (1900, 1, 1),
                   Story = PStr [], Era = PStr [], Category = ''Uncategorized''\<rparr>]
       \<and> chart_rows [PDict [(''title'', PStr ''Census''), (''start_date'', PStr [])]] = Inr []"
  using chart_rows_partial [OF assms] spec_row_of_none chart_examples by blast

theorem chart_rows_projection_witness:
  "chart_rows
     [PDict [(''title'', PStr ''Vigil''), (''start_date'', PStr ''soon'')],
      PDict [(''title'', PStr ''Siege''), (''start_date'', PStr ''1820-06''), (''end_date'', PStr ''1821''),
             (''story'', PStr ''Overmorrow''), (''categories'', PList [PStr ''war'', PStr ''city''])]]
   = Inr [\<lparr>Title = PStr ''Siege'', Start = (1820, 6, 1), End = (1821, 1, 1),
            Story = PStr ''Overmorrow'', Era = PStr [], Category = ''war, city''\<rparr>]"
proof -
  have p: "list_all partial_event
     [PDict [(''title'', PStr ''Vigil''), (''start_date'', PStr ''soon'')],
      PDict [(''title'', PStr ''Siege''), (''start_date'', PStr ''1820-06''), (''end_date'', PStr ''1821''),
             (''story'', PStr ''Overmorrow''), (''categories'', PList [PStr ''war'', PStr ''city''])]]"
    by (simp add: record_eval)
  show ?thesis
    unfolding chart_rows_projection [OF p, THEN conjunct1]
    by (simp add: List.map_filter_simps spec_row_of_def record_eval date_eval)
qed

subsection \<open>Export followed by import\<close>



subsection \<open>Save with an edit id that no stored event carries\<close>

lemma py_eq_str: "py_eq (PStr s) (PStr t) = Inr (s = t)"
  by simp

lemma find_by_id_absent: "id_absent i evs \<Longrightarrow> find_by_id evs (PStr i) = Inr None"
proof (induction evs)
  case Nil
  then show ?case by simp
next
  case (Cons e es)
  from Cons.prems obtain kvs s where e: "e = PDict kvs" and s: "map_of kvs ''id'' = Some (PStr s)" and ne: "s \<noteq> i"
    by (auto simp: id_absent_def field_of_def split: pyval.splits option.splits)
  from Cons.prems have "id_absent i es" by (simp add: id_absent_def)
  with Cons.IH e s ne show ?case by simp
qed

lemma editing_event_absent:
  "edit_id st = PStr i \<Longrightarrow> id_absent i (events st) \<Longrightarrow> editing_event st = Inr None"
  by (simp add: editing_event_def find_by_id_absent)

lemma payload_added: "dict_update (new_event_template n) (form_fields f) = (''id'', PStr n) # form_fields f"
  by (simp add: new_event_template_def form_fields_def)

lemma payload_updated:
  "dict_update (dict_set (new_event_template n) ''id'' eid) (form_fields f) = (''id'', eid) # form_fields f"
  by (simp add: new_event_template_def form_fields_def)

text \<open>
  Claim C2, amended. When every stored event has a string as its id and none of them is
  the edit id, Save raises nothing; with a blank title it leaves the state as it is and
  asks for a title, and otherwise it appends one event, made of the fresh id and the
  fields of the form, and leaves the stored events and the edit id as they are.
\<close>

theorem save_with_absent_edit_id_adds:
  assumes "edit_id st = PStr i" and "id_absent i (events st)"
  shows "save_click f new_id st =
           Inr (if py_strip (f_title f) = [] then (st, TitleRequired)
                else (st\<lparr>events := events st @ [PDict ((''id'', PStr new_id) # form_fields f)]\<rparr>, Added))"
  by (simp add: save_click_def editing_event_absent [OF assms] save_event_def is_editing_def
        payload_added)


text \<open>
  Claim C2, as stated, makes a Save under an edit id that no stored event carries a
  no-operation. The state below is reached by pressing Edit on the event \<^verbatim>\<open>zz\<close> and then
  Delete on its card, which leaves the edit id in place. The lookup then finds no event
  to edit, and the Save handler takes the branch of a new event: the store grows by an
  event with the fresh id.
\<close>

theorem save_with_absent_edit_id_not_noop:
  "card_edit (PDict [(''id'', PStr ''zz''), (''title'', PStr ''Gone''),
      (''date_text'', PStr []), (''start_date'', PStr []), (''end_date'', PStr []),
      (''era'', PStr []), (''story'', PStr []), (''characters'', PList []),
      (''categories'', PList []), (''notes'', PStr []), (''sort_index'', PInt 0)])
      \<lparr>events = [PDict [(''id'', PStr ''a''), (''title'', PStr ''Old''),
      (''date_text'', PStr []), (''start_date'', PStr ''1850''), (''end_date'', PStr []),
      (''era'', PStr []), (''story'', PStr []), (''characters'', PList []),
      (''categories'', PList []), (''notes'', PStr []), (''sort_index'', PInt 0)],
      PDict [(''id'', PStr ''zz''), (''title'', PStr ''Gone''), (''date_text'', PStr []),
      (''start_date'', PStr []), (''end_date'', PStr []), (''era'', PStr []),
      (''story'', PStr []), (''characters'', PList []), (''categories'', PList []),
      (''notes'', PStr []), (''sort_index'', PInt 0)]], edit_id = PNone\<rparr>
     = Inr \<lparr>events = [PDict [(''id'', PStr ''a''), (''title'', PStr ''Old''),
         (''date_text'', PStr []), (''start_date'', PStr ''1850''), (''end_date'', PStr []),
         (''era'', PStr []), (''story'', PStr []), (''characters'', PList []),
         (''categories'', PList []), (''notes'', PStr []), (''sort_index'', PInt 0)],
         PDict [(''id'', PStr ''zz''), (''title'', PStr ''Gone''), (''date_text'', PStr []),
         (''start_date'', PStr []), (''end_date'', PStr []), (''era'', PStr []),
         (''story'', PStr []), (''characters'', PList []), (''categories'', PList []),
         (''notes'', PStr []), (''sort_index'', PInt 0)]], edit_id = PStr ''zz''\<rparr>
   \<and> card_delete (PDict [(''id'', PStr ''zz''), (''title'', PStr ''Gone''),
       (''date_text'', PStr []), (''start_date'', PStr []), (''end_date'', PStr []),
       (''era'', PStr []), (''story'', PStr []), (''characters'', PList []),
       (''categories'', PList []), (''notes'', PStr []), (''sort_index'', PInt 0)])
       \<lparr>events = [PDict [(''id'', PStr ''a''), (''title'', PStr ''Old''),
       (''date_text'', PStr []), (''start_date'', PStr ''1850''), (''end_date'', PStr []),
       (''era'', PStr []), (''story'', PStr []), (''characters'', PList []),
       (''categories'', PList []), (''notes'', PStr []), (''sort_index'', PInt 0)],
       PDict [(''id'', PStr ''zz''), (''title'', PStr ''Gone''), (''date_text'', PStr []),
       (''start_date'', PStr []), (''end_date'', PStr []), (''era'', PStr []),
       (''story'', PStr []), (''characters'', PList []), (''categories'', PList []),
       (''notes'', PStr []), (''sort_index'', PInt 0)]], edit_id = PStr ''zz''\<rparr>
     = Inr \<lparr>events = [PDict [(''id'', PStr ''a''), (''title'', PStr ''Old''),
         (''date_text'', PStr []), (''start_date'', PStr ''1850''), (''end_date'', PStr []),
         (''era'', PStr []), (''story'', PStr []), (''characters'', PList []),
         (''categories'', PList []), (''notes'', PStr []), (''sort_index'', PInt 0)]],
         edit_id = PStr ''zz''\<rparr>
   \<and> id_absent ''zz'' [PDict [(''id'', PStr ''a''), (''title'', PStr ''Old''),
       (''date_text'', PStr []), (''start_date'', PStr ''1850''), (''end_date'', PStr []),
       (''era'', PStr []), (''story'', PStr []), (''characters'', PList []),
       (''categories'', PList []), (''notes'', PStr []), (''sort_index'', PInt 0)]]
   \<and> save_click \<lparr>f_title = ''New'', f_story = [], f_era = [], f_start_date = [],
       f_end_date = [], f_sort_index = 0, f_date_text = [], f_characters_text = [],
       f_categories_text = [], f_notes = []\<rparr> ''n1''
       \<lparr>events = [PDict [(''id'', PStr ''a''), (''title'', PStr ''Old''),
       (''date_text'', PStr []), (''start_date'', PStr ''1850''), (''end_date'', PStr []),
       (''era'', PStr []), (''story'', PStr []), (''characters'', PList []),
       (''categories'', PList []), (''notes'', PStr []), (''sort_index'', PInt 0)]],
       edit_id = PStr ''zz''\<rparr>
     = Inr (\<lparr>events = [PDict [(''id'', PStr ''a''), (''title'', PStr ''Old''),
         (''date_text'', PStr []), (''start_date'', PStr ''1850''), (''end_date'', PStr []),
         (''era'', PStr []), (''story'', PStr []), (''characters'', PList []),
         (''categories'', PList []), (''notes'', PStr []), (''sort_index'', PInt 0)],
         PDict [(''id'', PStr ''n1''), (''title'', PStr ''New''), (''date_text'', PStr []),
         (''start_date'', PStr []), (''end_date'', PStr []), (''era'', PStr []),
         (''story'', PStr []), (''characters'', PList []), (''categories'', PList []),
         (''notes'', PStr []), (''sort_index'', PInt 0)]], edit_id = PStr ''zz''\<rparr>, Added)"
  by code_simp

theorem save_with_absent_edit_id_adds_witness:
  "save_click \<lparr>f_title = ''New'', f_story = [], f_era = [], f_start_date = [],
      f_end_date = [], f_sort_index = 0, f_date_text = [], f_characters_text = [],
      f_categories_text = [], f_notes = []\<rparr> ''n1''
      \<lparr>events = [PDict [(''id'', PStr ''a''), (''title'', PStr ''Old''),
      (''date_text'', PStr []), (''start_date'', PStr ''1850''), (''end_date'', PStr []),
      (''era'', PStr []), (''story'', PStr []), (''characters'', PList []),
      (''categories'', PList []), (''notes'', PStr []), (''sort_index'', PInt 0)]],
      edit_id = PStr ''zz''\<rparr>
     = Inr (\<lparr>events = [PDict [(''id'', PStr ''a''), (''title'', PStr ''Old''),
         (''date_text'', PStr []), (''start_date'', PStr ''1850''), (''end_date'', PStr []),
         (''era'', PStr []), (''story'', PStr []), (''characters'', PList []),
         (''categories'', PList []), (''notes'', PStr []), (''sort_index'', PInt 0)],
         PDict [(''id'', PStr ''n1''), (''title'', PStr ''New''), (''date_text'', PStr []),
         (''start_date'', PStr []), (''end_date'', PStr []), (''era'', PStr []),
         (''story'', PStr []), (''characters'', PList []), (''categories'', PList []),
         (''notes'', PStr []), (''sort_index'', PInt 0)]], edit_id = PStr ''zz''\<rparr>, Added)"
proof -
  have a: "edit_id \<lparr>events = [PDict [(''id'', PStr ''a''), (''title'', PStr ''Old''),
      (''date_text'', PStr []), (''start_date'', PStr ''1850''), (''end_date'', PStr []),
      (''era'', PStr []), (''story'', PStr []), (''characters'', PList []),
      (''categories'', PList []), (''notes'', PStr []), (''sort_index'', PInt 0)]],
      edit_id = PStr ''zz''\<rparr> = PStr ''zz''" by simp
  have b: "id_absent ''zz'' (events \<lparr>events = [PDict [(''id'', PStr ''a''),
      (''title'', PStr ''Old''), (''date_text'', PStr []), (''start_date'', PStr ''1850''),
      (''end_date'', PStr []), (''era'', PStr []), (''story'', PStr []),
      (''characters'', PList []), (''categories'', PList []), (''notes'', PStr []),
      (''sort_index'', PInt 0)]], edit_id = PStr ''zz''\<rparr>)"
    by (simp add: id_absent_def field_of_def)
  have c: "py_strip (f_title \<lparr>f_title = ''New'', f_story = [], f_era = [],
      f_start_date = [], f_end_date = [], f_sort_index = 0, f_date_text = [],
      f_characters_text = [], f_categories_text = [],
      f_notes = []\<rparr>) \<noteq> []" by code_simp
  have d: "form_fields \<lparr>f_title = ''New'', f_story = [], f_era = [], f_start_date = [],
      f_end_date = [], f_sort_index = 0, f_date_text = [], f_characters_text = [],
      f_categories_text = [], f_notes = []\<rparr> = tl [(''id'', PStr ''n1''),
      (''title'', PStr ''New''), (''date_text'', PStr []), (''start_date'', PStr []),
      (''end_date'', PStr []), (''era'', PStr []), (''story'', PStr []),
      (''characters'', PList []), (''categories'', PList []), (''notes'', PStr []),
      (''sort_index'', PInt 0)]"
    by code_simp
  from save_with_absent_edit_id_adds [OF a b, of "\<lparr>f_title = ''New'', f_story = [],
      f_era = [], f_start_date = [], f_end_date = [], f_sort_index = 0, f_date_text = [],
      f_characters_text = [], f_categories_text = [], f_notes = []\<rparr>" "''n1''"] c d
  show ?thesis by simp
qed

subsection \<open>The invariant of the lists\<close>

lemma event_inv_payload: "event_inv (PDict ((''id'', x) # form_fields f))"
  by (simp add: event_inv_def ci_distinct_def strs_of_def field_of_def form_fields_def py_str_def
        strs_map dedupe_loop_eq spec_dedupe_distinct)

lemma map_res_all:
  "map_res f xs = Inr ys \<Longrightarrow> (\<And>x y. x \<in> set xs \<Longrightarrow> f x = Inr y \<Longrightarrow> Q y) \<Longrightarrow> list_all Q ys"
proof (induction xs arbitrary: ys)
  case Nil
  then show ?case by simp
next
  case (Cons x xs)
  from Cons.prems(1) obtain y where y: "f x = Inr y"
    by (cases "f x") simp_all
  with Cons.prems(1) obtain ys' where ys': "map_res f xs = Inr ys'"
    by (cases "map_res f xs") simp_all
  from Cons.prems(1) y ys' have ys: "ys = y # ys'" by simp
  have "Q y" using Cons.prems(2) [of x y] y by simp
  moreover have "list_all Q ys'"
  proof (rule Cons.IH [OF ys'])
    fix x' y' assume "x' \<in> set xs" and "f x' = Inr y'"
    then show "Q y'" using Cons.prems(2) [of x' y'] by simp
  qed
  ultimately show ?case by (simp add: ys)
qed

lemma filter_res_subset: "filter_res p xs = Inr ys \<Longrightarrow> set ys \<subseteq> set xs"
proof (induction xs arbitrary: ys)
  case Nil
  then show ?case by simp
next
  case (Cons x xs)
  from Cons.prems obtain b where b: "p x = Inr b"
    by (cases "p x") simp_all
  with Cons.prems obtain ys' where ys': "filter_res p xs = Inr ys'"
    by (cases "filter_res p xs") simp_all
  from Cons.IH [OF ys'] Cons.prems b ys' show ?case by (auto split: if_splits)
qed

lemma replace_by_id_inv:
  assumes "replace_by_id ee p evs = Inr evs'" and "list_all Q evs" and "Q p"
  shows "list_all Q evs'"
proof (rule map_res_all [OF assms(1) [unfolded replace_by_id_def]])
  fix x y
  assume x: "x \<in> set evs"
    and y: "bind_res (py_index x ''id'') (\<lambda>i. bind_res (py_index ee ''id'') (\<lambda>xa.
              bind_res (py_eq i xa) (\<lambda>b. Inr (if b then p else x)))) = Inr y"
  from y have "y = p \<or> y = x"
    by (auto simp: bind_res_def split: sum.splits if_splits)
  with x assms(2,3) show "Q y" by (auto simp: list_all_iff)
qed

lemma remove_by_id_inv:
  assumes "remove_by_id r evs = Inr evs'" and "list_all Q evs"
  shows "list_all Q evs'"
  using filter_res_subset [OF assms(1) [unfolded remove_by_id_def]] assms(2)
  by (auto simp: list_all_iff)

lemma save_event_inv:
  assumes "store_inv st" and "save_event f n ed st = Inr r"
  shows "store_inv (fst r)"
proof (cases "py_strip (f_title f) = []")
  case True
  with assms show ?thesis by (auto simp: save_event_def)
next
  case False
  show ?thesis
  proof (cases "if is_editing ed then ed else None")
    case None
    with False assms(2) have "fst r = st\<lparr>events := events st @ [PDict ((''id'', PStr n) # form_fields f)]\<rparr>"
      by (auto simp: save_event_def payload_added)
    with assms(1) show ?thesis by (simp add: store_inv_def event_inv_payload)
  next
    case (Some ee)
    with False assms(2) obtain eid evs where eid: "py_index ee ''id'' = Inr eid"
      and evs: "replace_by_id ee (PDict ((''id'', eid) # form_fields f)) (events st) = Inr evs"
      and r: "fst r = st\<lparr>events := evs, edit_id := PNone\<rparr>"
      by (auto simp: save_event_def payload_updated bind_res_def split: sum.splits)
    from replace_by_id_inv [OF evs, of event_inv] assms(1) have "list_all event_inv evs"
      by (simp add: store_inv_def event_inv_payload)
    with r show ?thesis by (simp add: store_inv_def)
  qed
qed

lemma delete_this_event_inv:
  assumes "store_inv st" and "delete_this_event ed st = Inr r"
  shows "store_inv (fst r)"
proof (cases "if is_editing ed then ed else None")
  case None
  with assms show ?thesis by (auto simp: delete_this_event_def)
next
  case (Some ee)
  with assms(2) obtain evs where evs: "remove_by_id ee (events st) = Inr evs"
    and r: "fst r = st\<lparr>events := evs, edit_id := PNone\<rparr>"
    by (auto simp: delete_this_event_def bind_res_def split: sum.splits)
  from remove_by_id_inv [OF evs, of event_inv] assms(1) r show ?thesis
    by (simp add: store_inv_def)
qed

lemma card_delete_inv:
  assumes "store_inv st" and "card_delete ev st = Inr st'"
  shows "store_inv st'"
proof -
  from assms(2) obtain evs where evs: "remove_by_id ev (events st) = Inr evs"
    and r: "st' = st\<lparr>events := evs\<rparr>"
    by (auto simp: card_delete_def bind_res_def split: sum.splits)
  from remove_by_id_inv [OF evs, of event_inv] assms(1) r show ?thesis
    by (simp add: store_inv_def)
qed

lemma card_edit_inv:
  assumes "store_inv st" and "card_edit ev st = Inr st'"
  shows "store_inv st'"
  using assms by (auto simp: card_edit_def store_inv_def bind_res_def split: sum.splits)

lemma import_json_inv:
  assumes "store_inv st" and "clean_upload json_load (Upload f)"
  shows "store_inv (fst (import_json json_load (Some f) st))"
  using assms by (auto simp: import_json_def store_inv_def split: sum.splits pyval.splits)

lemma step_inv:
  assumes "store_inv st" and "clean_upload json_load a" and "step json_load a st = Inr st'"
  shows "store_inv st'"
proof (cases a)
  case (Save f n)
  with assms(3) obtain ed r where "editing_event st = Inr ed" and "save_event f n ed st = Inr r" and "st' = fst r"
    by (auto simp: save_click_def bind_res_def split: sum.splits)
  with save_event_inv [OF assms(1)] show ?thesis by simp
next
  case DeleteThis
  with assms(3) obtain ed r where "editing_event st = Inr ed" and "delete_this_event ed st = Inr r" and "st' = fst r"
    by (auto simp: delete_click_def bind_res_def split: sum.splits)
  with delete_this_event_inv [OF assms(1)] show ?thesis by simp
next
  case (CardDelete ev)
  with assms card_delete_inv show ?thesis by simp
next
  case (CardEdit ev)
  with assms card_edit_inv show ?thesis by simp
next
  case Reset
  with assms show ?thesis by (auto simp: reset_form_def store_inv_def)
next
  case (Upload f)
  with assms import_json_inv [of st json_load f] show ?thesis by auto
qed

lemma run_inv:
  "store_inv st \<Longrightarrow> list_all (clean_upload json_load) acts \<Longrightarrow> run json_load acts st = Inr st'
   \<Longrightarrow> store_inv st'"
proof (induction acts arbitrary: st)
  case Nil
  then show ?case by simp
next
  case (Cons a acts)
  from Cons.prems(3) obtain st1 where st1: "step json_load a st = Inr st1"
    and rest: "run json_load acts st1 = Inr st'"
    by (cases "step json_load a st") simp_all
  from step_inv [OF Cons.prems(1) _ st1] Cons.prems(2) have "store_inv st1" by simp
  from Cons.IH [OF this _ rest] Cons.prems(2) show ?case by simp
qed

text \<open>
  Claim C9, as stated, holds the invariant after an upload too. The upload installs the
  document as it is: the event below lists \<^verbatim>\<open>Bob\<close> and \<^verbatim>\<open>bob\<close>, which are equal without
  regard to case, and is in the store after the upload.
\<close>

theorem upload_installs_duplicates:
  "store_inv \<lparr>events = [], edit_id = PNone\<rparr>
   \<and> run (Inr :: pyval \<Rightarrow> pyerr + pyval) [Upload (PList [PDict [(''id'', PStr ''b''), (''title'', PStr ''Feast''), (''date_text'', PStr []), (''start_date'', PStr []), (''end_date'', PStr []), (''era'', PStr []), (''story'', PStr []), (''characters'', PList [PStr ''Bob'', PStr ''bob'']), (''categories'', PList []), (''notes'', PStr []), (''sort_index'', PInt 0)]])] \<lparr>events = [], edit_id = PNone\<rparr>
     = Inr \<lparr>events = [PDict [(''id'', PStr ''b''), (''title'', PStr ''Feast''),
         (''date_text'', PStr []), (''start_date'', PStr []), (''end_date'', PStr []),
         (''era'', PStr []), (''story'', PStr []),
         (''characters'', PList [PStr ''Bob'', PStr ''bob'']), (''categories'', PList []),
         (''notes'', PStr []), (''sort_index'', PInt 0)]], edit_id = PNone\<rparr>
   \<and> strs_of (PDict [(''id'', PStr ''b''), (''title'', PStr ''Feast''),
       (''date_text'', PStr []), (''start_date'', PStr []), (''end_date'', PStr []),
       (''era'', PStr []), (''story'', PStr []),
       (''characters'', PList [PStr ''Bob'', PStr ''bob'']), (''categories'', PList []),
       (''notes'', PStr []), (''sort_index'', PInt 0)]) ''characters'' = [''Bob'', ''bob'']
   \<and> py_lower ''Bob'' = py_lower ''bob''
   \<and> \<not> store_inv \<lparr>events = [PDict [(''id'', PStr ''b''),
       (''title'', PStr ''Feast''), (''date_text'', PStr []), (''start_date'', PStr []),
       (''end_date'', PStr []), (''era'', PStr []), (''story'', PStr []),
       (''characters'', PList [PStr ''Bob'', PStr ''bob'']), (''categories'', PList []),
       (''notes'', PStr []), (''sort_index'', PInt 0)]], edit_id = PNone\<rparr>"
  by code_simp

text \<open>
  Claim C9, amended. Starting from a state in which no event lists two characters, or two
  categories, that are equal without regard to case, every run of Save (adding or
  updating), of the two Delete buttons, of Edit and Reset, and of uploads whose document
  has the property itself (or is rejected), ends in a state with the property.
\<close>

theorem store_invariant_preserved:
  assumes "store_inv st"
    and "list_all (clean_upload json_load) acts"
    and "run json_load acts st = Inr st'"
  shows "store_inv st'"
  using assms by (rule run_inv)

theorem store_invariant_preserved_witness:
  "store_inv \<lparr>events = [PDict [(''id'', PStr ''a''), (''title'', PStr ''Old''),
      (''date_text'', PStr []), (''start_date'', PStr ''1850''), (''end_date'', PStr []),
      (''era'', PStr []), (''story'', PStr []), (''characters'', PList []),
      (''categories'', PList []), (''notes'', PStr []), (''sort_index'', PInt 0)],
      PDict [(''id'', PStr ''n1''), (''title'', PStr ''Feast''), (''date_text'', PStr []),
      (''start_date'', PStr ''1851-03''), (''end_date'', PStr []), (''era'', PStr []),
      (''story'', PStr ''Overmorrow''), (''characters'', PList [PStr ''Bob'', PStr ''Alice'']),
      (''categories'', PList [PStr ''war'']), (''notes'', PStr []),
      (''sort_index'', PInt 2)]], edit_id = PNone\<rparr>"
proof -
  have a: "store_inv \<lparr>events = [], edit_id = PNone\<rparr>" by (simp add: store_inv_def)
  have b: "list_all (clean_upload (Inr :: pyval \<Rightarrow> pyerr + pyval))
             [Upload (PList [PDict [(''id'', PStr ''a''), (''title'', PStr ''Old''),
                 (''date_text'', PStr []), (''start_date'', PStr ''1850''),
                 (''end_date'', PStr []), (''era'', PStr []), (''story'', PStr []),
                 (''characters'', PList []), (''categories'', PList []), (''notes'', PStr []),
                 (''sort_index'', PInt 0)], PDict [(''id'', PStr ''zz''),
                 (''title'', PStr ''Gone''), (''date_text'', PStr []),
                 (''start_date'', PStr []), (''end_date'', PStr []), (''era'', PStr []),
                 (''story'', PStr []), (''characters'', PList []), (''categories'', PList []),
                 (''notes'', PStr []), (''sort_index'', PInt 0)]]), Save
                 \<lparr>f_title = '' Feast '', f_story = ''Overmorrow'', f_era = [],
                 f_start_date = ''1851-03'', f_end_date = [], f_sort_index = 2,
                 f_date_text = [], f_characters_text = ''Bob, bob , Alice,,BOB'',
                 f_categories_text = ''war, War'', f_notes = []\<rparr> ''n1'', CardEdit
                 (PDict [(''id'', PStr ''zz''), (''title'', PStr ''Gone''),
                 (''date_text'', PStr []), (''start_date'', PStr []), (''end_date'', PStr []),
                 (''era'', PStr []), (''story'', PStr []), (''characters'', PList []),
                 (''categories'', PList []), (''notes'', PStr []),
                 (''sort_index'', PInt 0)]), DeleteThis]"
    by code_simp
  have c: "run (Inr :: pyval \<Rightarrow> pyerr + pyval)
             [Upload (PList [PDict [(''id'', PStr ''a''), (''title'', PStr ''Old''),
                 (''date_text'', PStr []), (''start_date'', PStr ''1850''),
                 (''end_date'', PStr []), (''era'', PStr []), (''story'', PStr []),
                 (''characters'', PList []), (''categories'', PList []), (''notes'', PStr []),
                 (''sort_index'', PInt 0)], PDict [(''id'', PStr ''zz''),
                 (''title'', PStr ''Gone''), (''date_text'', PStr []),
                 (''start_date'', PStr []), (''end_date'', PStr []), (''era'', PStr []),
                 (''story'', PStr []), (''characters'', PList []), (''categories'', PList []),
                 (''notes'', PStr []), (''sort_index'', PInt 0)]]), Save
                 \<lparr>f_title = '' Feast '', f_story = ''Overmorrow'', f_era = [],
                 f_start_date = ''1851-03'', f_end_date = [], f_sort_index = 2,
                 f_date_text = [], f_characters_text = ''Bob, bob , Alice,,BOB'',
                 f_categories_text = ''war, War'', f_notes = []\<rparr> ''n1'', CardEdit
                 (PDict [(''id'', PStr ''zz''), (''title'', PStr ''Gone''),
                 (''date_text'', PStr []), (''start_date'', PStr []), (''end_date'', PStr []),
                 (''era'', PStr []), (''story'', PStr []), (''characters'', PList []),
                 (''categories'', PList []), (''notes'', PStr []),
                 (''sort_index'', PInt 0)]), DeleteThis]
             \<lparr>events = [], edit_id = PNone\<rparr>
           = Inr \<lparr>events = [PDict [(''id'', PStr ''a''), (''title'', PStr ''Old''),
               (''date_text'', PStr []), (''start_date'', PStr ''1850''),
               (''end_date'', PStr []), (''era'', PStr []), (''story'', PStr []),
               (''characters'', PList []), (''categories'', PList []), (''notes'', PStr []),
               (''sort_index'', PInt 0)], PDict [(''id'', PStr ''n1''),
               (''title'', PStr ''Feast''), (''date_text'', PStr []),
               (''start_date'', PStr ''1851-03''), (''end_date'', PStr []), (''era'', PStr []),
               (''story'', PStr ''Overmorrow''),
               (''characters'', PList [PStr ''Bob'', PStr ''Alice'']),
               (''categories'', PList [PStr ''war'']), (''notes'', PStr []),
               (''sort_index'', PInt 2)]], edit_id = PNone\<rparr>"
    by code_simp
  from a b c show ?thesis by (rule store_invariant_preserved)
qed

end
